theory Spec2Isabelle
  imports Main
begin

section \<open>Values of the untyped input\<close>

text \<open>
  The data handed to the mapper is parsed JSON plus \<open>undefined\<close>. Numbers are integers
  here (no claim depends on fractions or NaN); objects are association lists of their own
  properties in insertion order. \<open>JFunction name n\<close> is a function object with the own
  members \<open>name\<close> and \<open>length = n\<close>: what a lookup finds under an inherited key such as
  \<open>toString\<close>. The members that a value has beyond its own ones come from the runtime and
  are a parameter of the lookup (section on property lookup). Symbols and accessor
  properties are not part of the value model.
\<close>

datatype jsval =
    JUndefined
  | JNull
  | JBool bool
  | JNum int
  | JStr string
  | JArr "jsval list"
  | JObj "(string \<times> jsval) list"
  | JFunction string nat

text \<open>\<open>value == null\<close>: true for \<open>null\<close> and \<open>undefined\<close> only.\<close>

fun nullish :: "jsval \<Rightarrow> bool" where
  "nullish JUndefined = True"
| "nullish JNull = True"
| "nullish _ = False"

fun typeof :: "jsval \<Rightarrow> string" where
  "typeof JUndefined = ''undefined''"
| "typeof JNull = ''object''"
| "typeof (JBool _) = ''boolean''"
| "typeof (JNum _) = ''number''"
| "typeof (JStr _) = ''string''"
| "typeof (JArr _) = ''object''"
| "typeof (JObj _) = ''object''"
| "typeof (JFunction _ _) = ''function''"

text \<open>Truthiness, as tested by \<open>if (x)\<close>.\<close>

fun truthy :: "jsval \<Rightarrow> bool" where
  "truthy JUndefined = False"
| "truthy JNull = False"
| "truthy (JBool b) = b"
| "truthy (JNum n) = (n \<noteq> 0)"
| "truthy (JStr s) = (s \<noteq> [])"
| "truthy (JArr _) = True"
| "truthy (JObj _) = True"
| "truthy (JFunction _ _) = True"

text \<open>Decimal rendering of a non-negative integer, as a template literal prints it.\<close>

definition digit :: "nat \<Rightarrow> char" where
  "digit d = ''0123456789'' ! d"

fun showNum :: "nat \<Rightarrow> string" where
  "showNum n = (if n < 10 then [digit n] else showNum (n div 10) @ [digit (n mod 10)])"

declare showNum.simps [simp del]

text \<open>\<open>Array.prototype.join\<close> on strings.\<close>

fun joinWith :: "string \<Rightarrow> string list \<Rightarrow> string" where
  "joinWith sep [] = []"
| "joinWith sep [x] = x"
| "joinWith sep (x # y # ys) = x @ sep @ joinWith sep (y # ys)"

section \<open>Diagnostics (validation.ts)\<close>

datatype IssueLevel = info | warn | error

fun levelNum :: "IssueLevel \<Rightarrow> nat" where
  "levelNum info = 0"
| "levelNum warn = 1"
| "levelNum error = 2"

datatype ValidationIssue =
  ValidationIssue (path: string) (level: IssueLevel) (message: string)

text \<open>A path segment is a \<open>string | number\<close>: a field name or alias, or an index.\<close>

datatype segment = SegStr string | SegNum nat

text \<open>
  \<open>ValidationContext\<close> holds a reference to the path array that the mapper pushes to and
  pops from; the mapper's \<open>path\<close> and the context's \<open>_path\<close> are one array, so the model
  keeps them in one record. \<open>path_stack\<close> is \<open>_path\<close>.
\<close>

record ValidationContext =
  path_stack :: "segment list"
  issues :: "ValidationIssue list"

text \<open>The loop of \<open>pathString\<close>, with its accumulator \<open>str\<close>.\<close>

fun pathStringLoop :: "string \<Rightarrow> segment list \<Rightarrow> string" where
  "pathStringLoop str [] = str"
| "pathStringLoop str (SegStr p # ps) =
     pathStringLoop (if str \<noteq> [] then str @ ''.'' @ p else str @ p) ps"
| "pathStringLoop str (SegNum n # ps) =
     pathStringLoop (str @ ''['' @ showNum n @ '']'') ps"

definition pathString :: "segment list \<Rightarrow> string" where
  "pathString ps = pathStringLoop [] ps"

text \<open>\<open>ValidationContext.addIssue\<close> and its three wrappers.\<close>

definition vcAddIssue :: "ValidationContext \<Rightarrow> IssueLevel \<Rightarrow> string \<Rightarrow> ValidationContext" where
  "vcAddIssue c lv msg =
     c\<lparr>issues := issues c @ [ValidationIssue (pathString (path_stack c)) lv msg]\<rparr>"

definition vcError :: "ValidationContext \<Rightarrow> string \<Rightarrow> ValidationContext" where
  "vcError c msg = vcAddIssue c error msg"

text \<open>
  What a validator receives is an \<open>IValidationContext\<close>: the plain context, or a
  \<open>TrackingValidationContext\<close> around another one. A tracking wrapper is created inside
  \<open>validateValue\<close> and inside every refined chain and is dropped when they return, so the
  nesting is a datatype; mutation of the wrapped sink through the wrapper is the update of
  the inner component.
\<close>

datatype IValidationContext =
    Plain ValidationContext
  | Tracking "IssueLevel option" IValidationContext

text \<open>
  The update every method of the tracking context starts with:
  \<open>if (!this.maximumSeverity || level > this.maximumSeverity) this.maximumSeverity = level\<close>.
  \<open>!x\<close> holds for \<open>undefined\<close> and for \<open>IssueLevel.info\<close>, which is \<open>0\<close>.
\<close>

definition track :: "IssueLevel option \<Rightarrow> IssueLevel \<Rightarrow> IssueLevel option" where
  "track maximumSeverity lv =
     (case maximumSeverity of
        None \<Rightarrow> Some lv
      | Some m \<Rightarrow> if levelNum m = 0 \<or> levelNum lv > levelNum m then Some lv else Some m)"

fun addIssue :: "IValidationContext \<Rightarrow> IssueLevel \<Rightarrow> string \<Rightarrow> IValidationContext" where
  "addIssue (Plain c) lv msg = Plain (vcAddIssue c lv msg)"
| "addIssue (Tracking ms inner) lv msg = Tracking (track ms lv) (addIssue inner lv msg)"

fun ctxInfo :: "IValidationContext \<Rightarrow> string \<Rightarrow> IValidationContext" where
  "ctxInfo (Plain c) msg = Plain (vcAddIssue c info msg)"
| "ctxInfo (Tracking ms inner) msg = Tracking (track ms info) (ctxInfo inner msg)"

fun ctxWarn :: "IValidationContext \<Rightarrow> string \<Rightarrow> IValidationContext" where
  "ctxWarn (Plain c) msg = Plain (vcAddIssue c warn msg)"
| "ctxWarn (Tracking ms inner) msg = Tracking (track ms warn) (ctxWarn inner msg)"

fun ctxError :: "IValidationContext \<Rightarrow> string \<Rightarrow> IValidationContext" where
  "ctxError (Plain c) msg = Plain (vcAddIssue c error msg)"
| "ctxError (Tracking ms inner) msg = Tracking (track ms error) (ctxError inner msg)"

text \<open>\<open>maximumSeverity\<close> of a tracking context (a plain context has no such field).\<close>

fun maximumSeverity :: "IValidationContext \<Rightarrow> IssueLevel option" where
  "maximumSeverity (Tracking ms inner) = ms"
| "maximumSeverity (Plain c) = None"

text \<open>The context a wrapper was built around: what the caller still holds afterwards.\<close>

fun wrapped :: "IValidationContext \<Rightarrow> IValidationContext" where
  "wrapped (Tracking ms inner) = inner"
| "wrapped (Plain c) = Plain c"

text \<open>The plain context at the bottom of the wrappers (the getter \<open>issues\<close> reads it).\<close>

fun sinkOf :: "IValidationContext \<Rightarrow> ValidationContext" where
  "sinkOf (Plain c) = c"
| "sinkOf (Tracking ms inner) = sinkOf inner"

section \<open>Validator chains (validation.ts)\<close>

type_synonym ValidatorFn = "jsval \<Rightarrow> IValidationContext \<Rightarrow> IValidationContext"

text \<open>
  A chain is a callable with a \<open>refine\<close> method; the method closes over the chain and its
  \<open>ignoreNull\<close> flag, so a chain is the pair of both.
\<close>

record ValidatorChain =
  invoke :: ValidatorFn
  ignoreNull :: bool

definition makeValidatorChain :: "ValidatorFn \<Rightarrow> bool \<Rightarrow> ValidatorChain" where
  "makeValidatorChain fn ign =
     \<lparr>invoke = (\<lambda>v ctx. if \<not> ign \<or> \<not> nullish v then fn v ctx else ctx),
      ignoreNull = ign\<rparr>"

definition refineValidatorChain :: "ValidatorFn \<Rightarrow> ValidatorFn \<Rightarrow> bool \<Rightarrow> ValidatorChain" where
  "refineValidatorChain chain next ign =
     \<lparr>invoke = (\<lambda>v ctx.
        if \<not> ign \<or> \<not> nullish v then
          (let wrappedContext = chain v (Tracking None ctx)
           in if maximumSeverity wrappedContext \<noteq> Some error
              then wrapped (next v wrappedContext)
              else wrapped wrappedContext)
        else ctx),
      ignoreNull = ign\<rparr>"

definition refine :: "ValidatorChain \<Rightarrow> ValidatorFn \<Rightarrow> ValidatorChain" where
  "refine c next = refineValidatorChain (invoke c) next (ignoreNull c)"

text \<open>\<open>Validator.validateValue\<close>: one tracking context around the field's whole list.\<close>

definition validateValue ::
  "ValidatorFn list \<Rightarrow> jsval \<Rightarrow> ValidationContext \<Rightarrow> IssueLevel option \<times> ValidationContext" where
  "validateValue vs v c =
     (let trackingContext = foldl (\<lambda>tc validation. validation v tc) (Tracking None (Plain c)) vs
      in (maximumSeverity trackingContext, sinkOf trackingContext))"

text \<open>The string family and the nullable family.\<close>

definition isStringCheck :: ValidatorFn where
  "isStringCheck v ctx =
     (if typeof v \<noteq> ''string''
      then ctxError ctx (''Expected type string, but found: '' @ typeof v)
      else ctx)"

definition isString :: ValidatorChain where
  "isString = makeValidatorChain isStringCheck False"

fun strLength :: "jsval \<Rightarrow> nat option" where
  "strLength (JStr s) = Some (length s)"
| "strLength (JArr xs) = Some (length xs)"
| "strLength (JFunction name n) = Some n"
| "strLength _ = None"

definition maxLengthCheck :: "nat \<Rightarrow> IssueLevel \<Rightarrow> string option \<Rightarrow> ValidatorFn" where
  "maxLengthCheck len lv msg str ctx =
     (case strLength str of
        Some n \<Rightarrow>
          if n > len then
            addIssue ctx lv (case msg of
                Some m \<Rightarrow> m
              | None \<Rightarrow> ''Maximum length exceeded (max: '' @ showNum len @ '', actual: ''
                          @ showNum n @ '')'')
          else ctx
      | None \<Rightarrow> ctx)"

definition minLengthCheck :: "nat \<Rightarrow> IssueLevel \<Rightarrow> string option \<Rightarrow> ValidatorFn" where
  "minLengthCheck len lv msg str ctx =
     (case strLength str of
        Some n \<Rightarrow>
          if n < len then
            addIssue ctx lv (case msg of
                Some m \<Rightarrow> m
              | None \<Rightarrow> ''Minimum length violated (max: '' @ showNum len @ '', actual: ''
                          @ showNum n @ '')'')
          else ctx
      | None \<Rightarrow> ctx)"

definition maxLength :: "ValidatorChain \<Rightarrow> nat \<Rightarrow> ValidatorChain" where
  "maxLength baseValidator len = refine baseValidator (maxLengthCheck len error None)"

definition minLength :: "ValidatorChain \<Rightarrow> nat \<Rightarrow> ValidatorChain" where
  "minLength baseValidator len = refine baseValidator (minLengthCheck len error None)"

definition nullable :: ValidatorChain where
  "nullable = makeValidatorChain (\<lambda>v ctx. ctx) True"

text \<open>\<open>nullable().isString()\<close> builds a fresh type check with \<open>ignoreNull = true\<close>.\<close>

definition nullableIsString :: "ValidatorChain \<Rightarrow> ValidatorChain" where
  "nullableIsString baseValidator = makeValidatorChain isStringCheck True"

section \<open>Outcomes of the mapper\<close>

text \<open>
  What a call can end in: an exception, a value, or neither. \<open>TypeError\<close> is what the
  runtime raises for \<open>k in x\<close> on a primitive \<open>x\<close> and for a member read on \<open>undefined\<close>;
  \<open>Error\<close> and \<open>ValidationError\<close> are the two \<open>throw\<close> statements of \<open>convert\<close>.
  \<open>Diverged\<close> stands for a recursion that does not come back within the given depth.
  User-supplied functions (transforms, validators, constructors, hooks, the callback) are
  total functions here: they return and do not throw.

  An exception leaves the mutable state as it is at that moment: there is no \<open>try\<close> in the
  repository. \<open>Throw x s\<close> holds that state \<open>s\<close>: the path stack and the issues for the
  engine, and nothing (\<open>unit\<close>) for a lookup, which has no state, and for \<open>convert\<close>, whose
  stack and context are its own local variables.
\<close>

datatype exn =
    TypeError
  | Error string
  | ValidationError string ValidationContext

datatype ('s, 'a) outcome = Diverged | Throw exn 's | Return 'a

fun obind :: "('s, 'a) outcome \<Rightarrow> ('a \<Rightarrow> ('s, 'b) outcome) \<Rightarrow> ('s, 'b) outcome" where
  "obind Diverged f = Diverged"
| "obind (Throw x s) f = Throw x s"
| "obind (Return a) f = f a"

text \<open>
  A lookup called while the state is \<open>s\<close>; an exception of a call leaving the function that
  owns the state.
\<close>

fun during :: "'s \<Rightarrow> (unit, 'a) outcome \<Rightarrow> ('s, 'a) outcome" where
  "during s Diverged = Diverged"
| "during s (Throw x u) = Throw x s"
| "during s (Return a) = Return a"

fun leave :: "('s, 'a) outcome \<Rightarrow> (unit, 'a) outcome" where
  "leave Diverged = Diverged"
| "leave (Throw x s) = Throw x ()"
| "leave (Return a) = Return a"

section \<open>Property lookup (mapper.ts, getProperty)\<close>

text \<open>
  \<open>k in x\<close> and \<open>x[k]\<close>. The operator \<open>in\<close> throws on a primitive; on an object it sees the
  own members and the inherited ones. \<open>inh x\<close> lists the members that the runtime gives
  the value \<open>x\<close> beyond those the value model holds (for a parsed object those of
  \<open>Object.prototype\<close>, for an array those of \<open>Array.prototype\<close> too); it belongs to the
  language, not to the repository, and is a parameter of the model. An own member hides
  an inherited one of the same name.
\<close>

type_synonym members = "jsval \<Rightarrow> (string \<times> jsval) list"

fun hasProperty :: "members \<Rightarrow> string \<Rightarrow> jsval \<Rightarrow> (unit, bool) outcome" where
  "hasProperty inh k (JObj props) =
     Return (k \<in> set (map fst props) \<or> k \<in> set (map fst (inh (JObj props))))"
| "hasProperty inh k (JArr xs) =
     Return (k = ''length'' \<or> k \<in> set (map showNum [0..<length xs])
             \<or> k \<in> set (map fst (inh (JArr xs))))"
| "hasProperty inh k (JFunction name n) =
     Return (k = ''length'' \<or> k = ''name'' \<or> k \<in> set (map fst (inh (JFunction name n))))"
| "hasProperty inh k _ = Throw TypeError ()"

definition inheritedMember :: "members \<Rightarrow> string \<Rightarrow> jsval \<Rightarrow> jsval" where
  "inheritedMember inh k x = (case map_of (inh x) k of Some v \<Rightarrow> v | None \<Rightarrow> JUndefined)"

fun arrayMember :: "string \<Rightarrow> jsval list \<Rightarrow> nat \<Rightarrow> jsval option" where
  "arrayMember k [] i = None"
| "arrayMember k (x # xs) i = (if k = showNum i then Some x else arrayMember k xs (Suc i))"

fun getMember :: "members \<Rightarrow> string \<Rightarrow> jsval \<Rightarrow> jsval" where
  "getMember inh k (JObj props) =
     (case map_of props k of
        Some v \<Rightarrow> v
      | None \<Rightarrow> inheritedMember inh k (JObj props))"
| "getMember inh k (JArr xs) =
     (if k = ''length'' then JNum (int (length xs))
      else case arrayMember k xs 0 of
             Some v \<Rightarrow> v
           | None \<Rightarrow> inheritedMember inh k (JArr xs))"
| "getMember inh k (JFunction name n) =
     (if k = ''length'' then JNum (int n)
      else if k = ''name'' then JStr name
      else inheritedMember inh k (JFunction name n))"
| "getMember inh k _ = JUndefined"

text \<open>\<open>propertyRef.split(".")\<close>.\<close>

fun splitDot :: "string \<Rightarrow> string list" where
  "splitDot [] = [] # []"
| "splitDot (c # cs) =
     (if c = CHR ''.'' then [] # splitDot cs
      else (case splitDot cs of p # ps \<Rightarrow> (c # p) # ps | [] \<Rightarrow> [c] # []))"

text \<open>
  The loop over the parts of a dotted reference. \<open>toKey part\<close> is the property key that
  \<open>Number.isNaN(Number(part)) ? part : Number(part)\<close> denotes; the coercion \<open>Number\<close> belongs
  to the language, not to the repository, and is a parameter of the model.
\<close>

fun walkParts ::
  "members \<Rightarrow> (string \<Rightarrow> string) \<Rightarrow> string list \<Rightarrow> jsval \<Rightarrow> (unit, bool \<times> jsval) outcome" where
  "walkParts inh toKey [] current = Return (True, current)"
| "walkParts inh toKey (part # parts) current =
     (if nullish current then Return (False, JUndefined)
      else obind (hasProperty inh (toKey part) current) (\<lambda>present.
        if present then walkParts inh toKey parts (getMember inh (toKey part) current)
        else Return (False, JUndefined)))"

definition getProperty ::
  "members \<Rightarrow> (string \<Rightarrow> string) \<Rightarrow> segment \<Rightarrow> jsval \<Rightarrow> (unit, bool \<times> jsval) outcome" where
  "getProperty inh toKey propertyRef data =
     (case propertyRef of
        SegNum n \<Rightarrow>
          obind (hasProperty inh (showNum n) data) (\<lambda>found.
            Return (found, getMember inh (showNum n) data))
      | SegStr s \<Rightarrow> walkParts inh toKey (splitDot s) data)"

section \<open>Metadata (decorators.ts)\<close>

text \<open>
  \<open>mappedAs\<close> is a reference to another decorated class; classes may refer to each other
  in cycles, so the reference is a class name, looked up in the table of the environment.
  An absent optional function is \<open>None\<close>; an absent \<open>isArray\<close> or \<open>isRequired\<close> is \<open>False\<close>.

  Modelled from the spec: the field \<open>defaultValue\<close>. mapper.ts reads
  \<open>mapping.defaultValue\<close>, but the declaration of \<open>MappingMetadata\<close> with that field is not
  among the sources; the spec calls it the value "used when absent and not required".
  An absent default is \<open>JUndefined\<close>.
\<close>

record MappingMetadata =
  aliases :: "segment list"
  preValidationTransform :: "(jsval \<Rightarrow> jsval) option"
  validations :: "ValidatorFn list"
  transform :: "(jsval \<Rightarrow> jsval) option"
  mappedAs :: "string option"
  isArray :: bool
  isRequired :: bool
  defaultValue :: jsval

text \<open>
  A static member of a class that holds metadata: not there, there with the declared
  shape, or there with another shape. For \<open>_parameters\<close> and \<open>_parmeters\<close> the other shape
  is an object that is no array and has no \<open>length\<close> (such as \<open>{}\<close>); for \<open>_properties\<close> it
  is a number.
\<close>

datatype 'a static = Unspecified | Malformed | Declared 'a

type_synonym jsobject = "(string \<times> jsval) list"

text \<open>
  \<open>construct\<close> is the class's constructor, from the argument list to the own properties of
  the new object. \<open>parameters\<close> is \<open>_parameters\<close> (a sparse array: a hole is \<open>None\<close>),
  \<open>properties\<close> is \<open>_properties\<close> in the order of \<open>Object.getOwnPropertyNames\<close>, and
  \<open>parmeters\<close> is the static member named \<open>_parmeters\<close>, which \<open>isDecoratedType\<close> asks for.
  \<open>mapData\<close> and \<open>validateHook\<close> are the optional methods \<open>mapData(data, ctx)\<close> and
  \<open>validate(ctx)\<close> of the instances.
\<close>

record DecoratedType =
  construct :: "jsval list \<Rightarrow> jsobject"
  parameters :: "MappingMetadata option list static"
  properties :: "(string \<times> MappingMetadata) list static"
  parmeters :: "unit static"
  mapData :: "(jsobject \<Rightarrow> jsval \<Rightarrow> IValidationContext \<Rightarrow> jsobject \<times> IValidationContext) option"
  validateHook :: "(jsobject \<Rightarrow> IValidationContext \<Rightarrow> jsobject \<times> IValidationContext) option"

text \<open>The class table and the two parameters of the lookup.\<close>

record env =
  classes :: "string \<Rightarrow> DecoratedType"
  toKey :: "string \<Rightarrow> string"
  inherited :: members

type_synonym 'a run = "(ValidationContext, 'a) outcome"

section \<open>The conversion engine (mapper.ts)\<close>

definition ifEmpty :: "'a list \<Rightarrow> 'a \<Rightarrow> 'a list" where
  "ifEmpty ary val = (if ary \<noteq> [] then ary else [val])"

definition objectOrUnspecified :: "'a static \<Rightarrow> bool" where
  "objectOrUnspecified member =
     (case member of Unspecified \<Rightarrow> True | Malformed \<Rightarrow> False | Declared _ \<Rightarrow> True)"

definition arrayOrUnspecified :: "'a static \<Rightarrow> bool" where
  "arrayOrUnspecified member =
     (case member of Unspecified \<Rightarrow> True | Malformed \<Rightarrow> False | Declared _ \<Rightarrow> True)"

text \<open>
  \<open>objectOrUnspecified("_properties") && arrayOrUnspecified("_parmeters")\<close>: the second
  name is spelled as in the source.
\<close>

definition isDecoratedType :: "DecoratedType \<Rightarrow> bool" where
  "isDecoratedType ctor =
     (objectOrUnspecified (properties ctor) \<and> arrayOrUnspecified (parmeters ctor))"

definition push :: "segment \<Rightarrow> ValidationContext \<Rightarrow> ValidationContext" where
  "push seg c = c\<lparr>path_stack := path_stack c @ [seg]\<rparr>"

definition pop :: "ValidationContext \<Rightarrow> ValidationContext" where
  "pop c = c\<lparr>path_stack := butlast (path_stack c)\<rparr>"

text \<open>How a segment prints inside \<open>path.join(".")\<close> and inside a template literal.\<close>

fun segText :: "segment \<Rightarrow> string" where
  "segText (SegStr s) = s"
| "segText (SegNum n) = showNum n"

text \<open>\<open>params[index] = val\<close>: the array grows, and the slots in between are holes.\<close>

definition setIndex :: "jsval list \<Rightarrow> nat \<Rightarrow> jsval \<Rightarrow> jsval list" where
  "setIndex params index val =
     (if index < length params then params[index := val]
      else params @ replicate (index - length params) JUndefined @ [val])"

text \<open>\<open>result[key] = val\<close> on a data property.\<close>

fun setProp :: "jsobject \<Rightarrow> string \<Rightarrow> jsval \<Rightarrow> jsobject" where
  "setProp [] key val = [(key, val)]"
| "setProp ((k, v) # rest) key val =
     (if k = key then (k, val) # rest else (k, v) # setProp rest key val)"

type_synonym builder =
  "DecoratedType \<Rightarrow> jsval \<Rightarrow> ValidationContext \<Rightarrow> (jsval \<times> ValidationContext) run"

text \<open>
  \<open>data.map((v, ix) => ...)\<close> of \<open>handleRecursiveMapping\<close>; \<open>rec\<close> is
  \<open>Mapper.internalCreateInstance\<close>.
\<close>

fun mapElements ::
  "builder \<Rightarrow> DecoratedType \<Rightarrow> jsval list \<Rightarrow> nat \<Rightarrow> ValidationContext
   \<Rightarrow> (jsval list \<times> ValidationContext) run" where
  "mapElements rec ctor [] ix c = Return ([], c)"
| "mapElements rec ctor (v # vs) ix c =
     obind (rec ctor v (push (SegNum ix) c)) (\<lambda>(r, c1).
       obind (mapElements rec ctor vs (Suc ix) (pop c1)) (\<lambda>(rs, c2).
         Return (r # rs, c2)))"

definition handleRecursiveMapping ::
  "builder \<Rightarrow> DecoratedType \<Rightarrow> bool \<Rightarrow> jsval \<Rightarrow> ValidationContext
   \<Rightarrow> (jsval \<times> ValidationContext) run" where
  "handleRecursiveMapping rec ctor isArr data c =
     (if isArr then
        (if \<not> nullish data then
           (case data of
              JArr vs \<Rightarrow>
                obind (mapElements rec ctor vs 0 c) (\<lambda>(rs, c1). Return (JArr rs, c1))
            | _ \<Rightarrow>
                Return (JUndefined,
                  vcError c (''Expected an array but found a non array type for property ''
                             @ joinWith ''.'' (map segText (path_stack c)))))
         else Return (JUndefined, c))
      else rec ctor data c)"

text \<open>
  The body of \<open>if (found) { ... break; }\<close>, which the parameter loop and the property loop
  share word for word. The result is \<open>Some val\<close> when \<open>mapped\<close> was set, with the value to
  store. A hole of \<open>_parameters\<close> is \<open>undefined\<close>, and reading
  \<open>mapping.preValidationTransform\<close> on it throws, after the segment was pushed.
\<close>

definition processFound ::
  "builder \<Rightarrow> env \<Rightarrow> MappingMetadata option \<Rightarrow> segment \<Rightarrow> jsval \<Rightarrow> ValidationContext
   \<Rightarrow> (jsval option \<times> ValidationContext) run" where
  "processFound rec e mapping mappedNameOrIx val0 c0 =
     (case mapping of
        None \<Rightarrow> Throw TypeError (push mappedNameOrIx c0)
      | Some m \<Rightarrow>
         (let c1 = push mappedNameOrIx c0;
              val1 = (case preValidationTransform m of Some f \<Rightarrow> f val0 | None \<Rightarrow> val0);
              (validationResult, c2) =
                 (if validations m \<noteq> [] then validateValue (validations m) val1 c1
                  else (None, c1))
          in if validationResult \<noteq> Some error then
               (let val2 = (case transform m of Some f \<Rightarrow> f val1 | None \<Rightarrow> val1)
                in case mappedAs m of
                     Some cls \<Rightarrow>
                       obind (handleRecursiveMapping rec (classes e cls) (isArray m) val2 c2)
                         (\<lambda>(val3, c3). Return (Some val3, pop c3))
                   | None \<Rightarrow> Return (Some val2, pop c2))
             else Return (None, pop c2)))"

text \<open>The loop \<open>for (const mappedNameOrIx of ifEmpty(mapping?.aliases, ...))\<close>.\<close>

fun resolveAliases ::
  "builder \<Rightarrow> env \<Rightarrow> MappingMetadata option \<Rightarrow> segment list \<Rightarrow> jsval \<Rightarrow> ValidationContext
   \<Rightarrow> (jsval option \<times> ValidationContext) run" where
  "resolveAliases rec e mapping [] data c = Return (None, c)"
| "resolveAliases rec e mapping (mappedNameOrIx # rest) data c =
     obind (during c (getProperty (inherited e) (toKey e) mappedNameOrIx data))
       (\<lambda>(found, val).
          if found then processFound rec e mapping mappedNameOrIx val c
          else resolveAliases rec e mapping rest data c)"

definition aliasesOf :: "MappingMetadata option \<Rightarrow> segment list" where
  "aliasesOf mapping = (case mapping of None \<Rightarrow> [] | Some m \<Rightarrow> aliases m)"

definition requiredOf :: "MappingMetadata option \<Rightarrow> bool" where
  "requiredOf mapping = (case mapping of None \<Rightarrow> False | Some m \<Rightarrow> isRequired m)"

definition defaultOf :: "MappingMetadata option \<Rightarrow> jsval" where
  "defaultOf mapping = (case mapping of None \<Rightarrow> JUndefined | Some m \<Rightarrow> defaultValue m)"

text \<open>One round of the loop over \<open>paramMappings\<close>.\<close>

definition paramStep ::
  "builder \<Rightarrow> env \<Rightarrow> jsval \<Rightarrow> MappingMetadata option \<Rightarrow> nat
   \<Rightarrow> jsval list \<times> ValidationContext \<Rightarrow> (jsval list \<times> ValidationContext) run" where
  "paramStep rec e data mapping index acc =
     (case acc of (params, c) \<Rightarrow>
        obind (resolveAliases rec e mapping (ifEmpty (aliasesOf mapping) (SegNum index)) data c)
          (\<lambda>(r, c1).
             case r of
               Some val \<Rightarrow> Return (setIndex params index val, c1)
             | None \<Rightarrow>
                 if requiredOf mapping then
                   Return (params,
                     vcError c1 (''Required parameter not found: ''
                       @ joinWith '','' (map segText (ifEmpty (aliasesOf mapping) (SegNum index)))))
                 else if truthy (defaultOf mapping) then
                   Return (setIndex params index (defaultOf mapping), c1)
                 else Return (params, c1)))"

fun paramPass ::
  "builder \<Rightarrow> env \<Rightarrow> jsval \<Rightarrow> MappingMetadata option list \<Rightarrow> nat
   \<Rightarrow> jsval list \<times> ValidationContext \<Rightarrow> (jsval list \<times> ValidationContext) run" where
  "paramPass rec e data [] index acc = Return acc"
| "paramPass rec e data (mapping # rest) index acc =
     obind (paramStep rec e data mapping index acc) (\<lambda>acc1.
       paramPass rec e data rest (Suc index) acc1)"

text \<open>One round of the loop over the names of \<open>propMappings\<close>.\<close>

definition propStep ::
  "builder \<Rightarrow> env \<Rightarrow> jsval \<Rightarrow> string \<times> MappingMetadata
   \<Rightarrow> jsobject \<times> ValidationContext \<Rightarrow> (jsobject \<times> ValidationContext) run" where
  "propStep rec e data entry acc =
     (case entry of (key, m) \<Rightarrow> case acc of (result, c) \<Rightarrow>
        obind (resolveAliases rec e (Some m) (ifEmpty (aliases m) (SegStr key)) data c)
          (\<lambda>(r, c1).
             case r of
               Some val \<Rightarrow> Return (setProp result key val, c1)
             | None \<Rightarrow>
                 if isRequired m then
                   Return (result,
                     vcError c1 (''Required property or field not found: '' @ key))
                 else if truthy (defaultValue m) then
                   Return (setProp result key (defaultValue m), c1)
                 else Return (result, c1)))"

fun propPass ::
  "builder \<Rightarrow> env \<Rightarrow> jsval \<Rightarrow> (string \<times> MappingMetadata) list
   \<Rightarrow> jsobject \<times> ValidationContext \<Rightarrow> (jsobject \<times> ValidationContext) run" where
  "propPass rec e data [] acc = Return acc"
| "propPass rec e data (entry # rest) acc =
     obind (propStep rec e data entry acc) (\<lambda>acc1. propPass rec e data rest acc1)"

text \<open>The two hooks, called on the plain context.\<close>

definition runMapData :: "DecoratedType \<Rightarrow> jsval \<Rightarrow> jsobject \<times> ValidationContext
   \<Rightarrow> jsobject \<times> ValidationContext" where
  "runMapData ctor data acc =
     (case acc of (result, c) \<Rightarrow>
        (case mapData ctor of
           None \<Rightarrow> (result, c)
         | Some h \<Rightarrow> (case h result data (Plain c) of (result1, c1) \<Rightarrow> (result1, sinkOf c1))))"

definition runValidateHook :: "DecoratedType \<Rightarrow> jsobject \<times> ValidationContext
   \<Rightarrow> jsobject \<times> ValidationContext" where
  "runValidateHook ctor acc =
     (case acc of (result, c) \<Rightarrow>
        (case validateHook ctor of
           None \<Rightarrow> (result, c)
         | Some h \<Rightarrow> (case h result (Plain c) of (result1, c1) \<Rightarrow> (result1, sinkOf c1))))"

text \<open>
  The body of \<open>internalCreateInstance\<close>, with the recursive call as \<open>rec\<close>. A malformed
  \<open>_parameters\<close> is truthy and has no \<open>length\<close>, so its loop has no round; a malformed
  \<open>_properties\<close> has no own property names.
\<close>

definition createInstance :: "builder \<Rightarrow> env \<Rightarrow> builder" where
  "createInstance rec e ctor data c =
     (if data = JNull \<or> data = JUndefined then Return (data, c)
      else
        obind (case parameters ctor of
                 Declared paramMappings \<Rightarrow> paramPass rec e data paramMappings 0 ([], c)
               | _ \<Rightarrow> Return ([], c))
          (\<lambda>(params, c1).
             obind (case properties ctor of
                      Declared propMappings \<Rightarrow>
                        propPass rec e data propMappings (construct ctor params, c1)
                    | _ \<Rightarrow> Return (construct ctor params, c1))
               (\<lambda>acc. case runValidateHook ctor (runMapData ctor data acc) of
                         (result, c3) \<Rightarrow> Return (JObj result, c3))))"

text \<open>
  \<open>internalCreateInstance\<close> itself: the first argument bounds the depth of the nested
  calls, and a run that needs more ends in \<open>Diverged\<close>.
\<close>

primrec internalCreateInstance :: "nat \<Rightarrow> env \<Rightarrow> builder" where
  "internalCreateInstance 0 e = (\<lambda>ctor data c. Diverged)"
| "internalCreateInstance (Suc depth) e = createInstance (internalCreateInstance depth e) e"

text \<open>
  \<open>Mapper.convert\<close>. The callback returns nothing; what it does is an update of the
  caller's own state \<open>'w\<close>, which \<open>convert\<close> hands back with the instance.
\<close>

definition convert ::
  "nat \<Rightarrow> env \<Rightarrow> DecoratedType \<Rightarrow> jsval \<Rightarrow> (jsval \<Rightarrow> ValidationContext \<Rightarrow> 'w \<Rightarrow> 'w) option
   \<Rightarrow> 'w \<Rightarrow> (unit, jsval \<times> 'w) outcome" where
  "convert depth e ctor data cb w =
     (if \<not> isDecoratedType ctor then
        Throw (Error ''The specified type contains invalid metadata for a type-mapper decorated type.'') ()
      else
        obind (leave (internalCreateInstance depth e ctor data \<lparr>path_stack = [], issues = []\<rparr>))
          (\<lambda>(result, c).
             case cb of
               Some f \<Rightarrow> Return (result, f result c w)
             | None \<Rightarrow>
                 (let errors = filter (\<lambda>iss. level iss = error) (issues c)
                  in if errors \<noteq> [] then
                       Throw (ValidationError
                         (''Validation failed with '' @ showNum (length errors) @ '' errors: ''
                            @ joinWith '','' (map message errors)) c) ()
                     else Return (result, w))))"

section \<open>Notions used to state the properties\<close>

text \<open>
  A validator or hook written against the interface \<open>IValidationContext\<close> can only call
  \<open>addIssue\<close>, \<open>info\<close>, \<open>warn\<close> and \<open>error\<close> on the context it is given. \<open>reports rs ctx\<close> is
  the context after the calls \<open>rs\<close>, in order; \<open>stamp p r\<close> is the issue that a report \<open>r\<close>
  becomes under the path \<open>p\<close>.
\<close>

definition reports :: "(IssueLevel \<times> string) list \<Rightarrow> IValidationContext \<Rightarrow> IValidationContext" where
  "reports rs ctx = foldl (\<lambda>c (lv, msg). addIssue c lv msg) ctx rs"

definition stamp :: "segment list \<Rightarrow> IssueLevel \<times> string \<Rightarrow> ValidationIssue" where
  "stamp p r = ValidationIssue (pathString p) (fst r) (snd r)"

text \<open>
  \<open>isMaxOf ls mo\<close>: \<open>mo\<close> is the maximum of the levels \<open>ls\<close> under \<open>info < warn < error\<close>,
  and \<open>None\<close> (undefined) when there is none.
\<close>

definition isMaxOf :: "IssueLevel list \<Rightarrow> IssueLevel option \<Rightarrow> bool" where
  "isMaxOf ls mo =
     (case mo of
        None \<Rightarrow> ls = []
      | Some m \<Rightarrow> m \<in> set ls \<and> (\<forall>l \<in> set ls. levelNum l \<le> levelNum m))"

text \<open>
  The formatting rule in the words of the specification: string segments are joined with
  a dot except the first, numeric segments are rendered in brackets with no separator.
\<close>

fun firstSegment :: "segment \<Rightarrow> string" where
  "firstSegment (SegStr s) = s"
| "firstSegment (SegNum n) = ''['' @ showNum n @ '']''"

fun laterSegment :: "segment \<Rightarrow> string" where
  "laterSegment (SegStr s) = ''.'' @ s"
| "laterSegment (SegNum n) = ''['' @ showNum n @ '']''"

fun specPath :: "segment list \<Rightarrow> string" where
  "specPath [] = []"
| "specPath (p # ps) = firstSegment p @ concat (map laterSegment ps)"

text \<open>A validator that does nothing to its context but report.\<close>

definition respectsInterface :: "ValidatorFn \<Rightarrow> bool" where
  "respectsInterface f = (\<forall>v. \<exists>rs. \<forall>ctx. f v ctx = reports rs ctx)"










text \<open>
  \<open>firstResolved\<close>: the first alias, in declared order, under which \<open>getProperty\<close> finds a
  value, with that value; \<open>None\<close> when no alias resolves. For a value \<open>v\<close> found under the
  alias \<open>a\<close> in the context \<open>c\<close>: \<open>preValue\<close> is the value that is validated, \<open>validated\<close> is
  the context after the validations of the mapping (the segment \<open>a\<close> still pushed),
  \<open>validationFails\<close> says that they produced an error-level issue, and \<open>transformed\<close> is
  the value after \<open>transform\<close>. \<open>unmapped\<close>: the flag \<open>mapped\<close> stays false, which is the
  case when no alias resolves and when the first resolved value fails validation.
\<close>

fun firstResolved ::
  "env \<Rightarrow> segment list \<Rightarrow> jsval \<Rightarrow> (unit, (segment \<times> jsval) option) outcome" where
  "firstResolved e [] data = Return None"
| "firstResolved e (a # as) data =
     obind (getProperty (inherited e) (toKey e) a data) (\<lambda>(found, val).
       if found then Return (Some (a, val)) else firstResolved e as data)"

definition preValue :: "MappingMetadata \<Rightarrow> jsval \<Rightarrow> jsval" where
  "preValue m v = (case preValidationTransform m of Some f \<Rightarrow> f v | None \<Rightarrow> v)"

definition validated ::
  "MappingMetadata \<Rightarrow> segment \<Rightarrow> jsval \<Rightarrow> ValidationContext \<Rightarrow> ValidationContext" where
  "validated m a v c =
     (if validations m \<noteq> []
      then snd (validateValue (validations m) (preValue m v) (push a c))
      else push a c)"

definition validationFails ::
  "MappingMetadata \<Rightarrow> segment \<Rightarrow> jsval \<Rightarrow> ValidationContext \<Rightarrow> bool" where
  "validationFails m a v c =
     (validations m \<noteq> []
      \<and> fst (validateValue (validations m) (preValue m v) (push a c)) = Some error)"

definition transformed :: "MappingMetadata \<Rightarrow> jsval \<Rightarrow> jsval" where
  "transformed m v = (case transform m of Some f \<Rightarrow> f (preValue m v) | None \<Rightarrow> preValue m v)"

definition unmapped ::
  "env \<Rightarrow> MappingMetadata \<Rightarrow> segment list \<Rightarrow> jsval \<Rightarrow> ValidationContext \<Rightarrow> bool" where
  "unmapped e m as data c =
     (firstResolved e as data = Return None
      \<or> (\<exists>a v. firstResolved e as data = Return (Some (a, v))
                 \<and> validationFails m a v c))"

text \<open>An outcome that is not an exception other than \<open>TypeError\<close>.\<close>

fun typeErrorOnly :: "('s, 'a) outcome \<Rightarrow> bool" where
  "typeErrorOnly (Throw x s) = (x = TypeError)"
| "typeErrorOnly Diverged = True"
| "typeErrorOnly (Return a) = True"

section \<open>Example classes\<close>

text \<open>
  \<open>makeMappingMetadata\<close> is the empty record of decorators.ts. The classes are those of the
  repository's README and tests, as their decorators leave them: a \<open>Vehicle\<close> with a
  required constructor parameter under two aliases and one with a default, a class with
  an array of vehicles, and the class of the nullable test.
\<close>

definition makeMappingMetadata :: MappingMetadata where
  "makeMappingMetadata =
     \<lparr>aliases = [], preValidationTransform = None, validations = [], transform = None,
      mappedAs = None, isArray = False, isRequired = False, defaultValue = JUndefined\<rparr>"

text \<open>The argument at a position of a call; a missing one is \<open>undefined\<close>.\<close>

definition arg :: "jsval list \<Rightarrow> nat \<Rightarrow> jsval" where
  "arg params i = (if i < length params then params ! i else JUndefined)"

definition fooProperty :: MappingMetadata where
  "fooProperty = makeMappingMetadata\<lparr>validations := [invoke (nullableIsString nullable)]\<rparr>"

definition TestNullableValidateExample :: DecoratedType where
  "TestNullableValidateExample =
     \<lparr>construct = (\<lambda>params. [(''foo'', JStr ''def'')]),
      parameters = Unspecified,
      properties = Declared [(''foo'', fooProperty)],
      parmeters = Unspecified, mapData = None, validateHook = None\<rparr>"

definition makeParameter :: MappingMetadata where
  "makeParameter =
     makeMappingMetadata\<lparr>aliases := [SegStr ''make'', SegStr ''manufacturer''],
       validations := [invoke isString], isRequired := True\<rparr>"

definition modelParameter :: MappingMetadata where
  "modelParameter =
     makeMappingMetadata\<lparr>aliases := [SegStr ''model''],
       validations := [invoke isString], defaultValue := JStr ''UNKNOWN''\<rparr>"

definition Vehicle :: DecoratedType where
  "Vehicle =
     \<lparr>construct = (\<lambda>params.
        [(''year'', JNum 0), (''make'', arg params 0), (''model'', arg params 1)]),
      parameters = Declared [Some makeParameter, Some modelParameter],
      properties = Declared [(''year'', makeMappingMetadata)],
      parmeters = Unspecified, mapData = None, validateHook = None\<rparr>"

definition Garage :: DecoratedType where
  "Garage =
     \<lparr>construct = (\<lambda>params. [(''vehicles'', JArr [])]),
      parameters = Unspecified,
      properties = Declared
        [(''vehicles'', makeMappingMetadata\<lparr>mappedAs := Some ''Vehicle'', isArray := True\<rparr>)],
      parmeters = Unspecified, mapData = None, validateHook = None\<rparr>"

text \<open>
  An example runtime: the function members of \<open>Object.prototype\<close>, \<open>Array.prototype\<close> and
  \<open>Function.prototype\<close> of ECMAScript 2023, and \<open>__proto__\<close>, which reads as the prototype
  object.
\<close>

definition objectFunctions :: "(string \<times> jsval) list" where
  "objectFunctions =
     [(''constructor'', JFunction ''Object'' 1),
      (''__defineGetter__'', JFunction ''__defineGetter__'' 2),
      (''__defineSetter__'', JFunction ''__defineSetter__'' 2),
      (''hasOwnProperty'', JFunction ''hasOwnProperty'' 1),
      (''__lookupGetter__'', JFunction ''__lookupGetter__'' 1),
      (''__lookupSetter__'', JFunction ''__lookupSetter__'' 1),
      (''isPrototypeOf'', JFunction ''isPrototypeOf'' 1),
      (''propertyIsEnumerable'', JFunction ''propertyIsEnumerable'' 1),
      (''toString'', JFunction ''toString'' 0),
      (''valueOf'', JFunction ''valueOf'' 0),
      (''toLocaleString'', JFunction ''toLocaleString'' 0)]"

definition objectPrototype :: "(string \<times> jsval) list" where
  "objectPrototype = objectFunctions @ [(''__proto__'', JObj objectFunctions)]"

definition arrayFunctions :: "(string \<times> jsval) list" where
  "arrayFunctions =
     [(''constructor'', JFunction ''Array'' 1),
      (''at'', JFunction ''at'' 1), (''concat'', JFunction ''concat'' 1),
      (''copyWithin'', JFunction ''copyWithin'' 2), (''fill'', JFunction ''fill'' 1),
      (''find'', JFunction ''find'' 1), (''findIndex'', JFunction ''findIndex'' 1),
      (''findLast'', JFunction ''findLast'' 1),
      (''findLastIndex'', JFunction ''findLastIndex'' 1),
      (''lastIndexOf'', JFunction ''lastIndexOf'' 1), (''pop'', JFunction ''pop'' 0),
      (''push'', JFunction ''push'' 1), (''reverse'', JFunction ''reverse'' 0),
      (''shift'', JFunction ''shift'' 0), (''unshift'', JFunction ''unshift'' 1),
      (''slice'', JFunction ''slice'' 2), (''sort'', JFunction ''sort'' 1),
      (''splice'', JFunction ''splice'' 2), (''includes'', JFunction ''includes'' 1),
      (''indexOf'', JFunction ''indexOf'' 1), (''join'', JFunction ''join'' 1),
      (''keys'', JFunction ''keys'' 0), (''entries'', JFunction ''entries'' 0),
      (''values'', JFunction ''values'' 0), (''forEach'', JFunction ''forEach'' 1),
      (''filter'', JFunction ''filter'' 1), (''flat'', JFunction ''flat'' 0),
      (''flatMap'', JFunction ''flatMap'' 1), (''map'', JFunction ''map'' 1),
      (''every'', JFunction ''every'' 1), (''some'', JFunction ''some'' 1),
      (''reduce'', JFunction ''reduce'' 1), (''reduceRight'', JFunction ''reduceRight'' 1),
      (''toLocaleString'', JFunction ''toLocaleString'' 0),
      (''toString'', JFunction ''toString'' 0),
      (''toReversed'', JFunction ''toReversed'' 0), (''toSorted'', JFunction ''toSorted'' 1),
      (''toSpliced'', JFunction ''toSpliced'' 2), (''with'', JFunction ''with'' 2)]"

definition functionFunctions :: "(string \<times> jsval) list" where
  "functionFunctions =
     [(''constructor'', JFunction ''Function'' 1),
      (''apply'', JFunction ''apply'' 2), (''bind'', JFunction ''bind'' 1),
      (''call'', JFunction ''call'' 1), (''toString'', JFunction ''toString'' 0)]"

fun exampleRuntime :: members where
  "exampleRuntime (JObj props) = objectPrototype"
| "exampleRuntime (JArr xs) = arrayFunctions @ objectPrototype"
| "exampleRuntime (JFunction name n) = functionFunctions @ objectPrototype"
| "exampleRuntime _ = []"

definition exampleEnv :: env where
  "exampleEnv =
     \<lparr>classes = (\<lambda>name. if name = ''Vehicle'' then Vehicle
                       else if name = ''Garage'' then Garage
                       else TestNullableValidateExample),
      toKey = (\<lambda>part. part),
      inherited = exampleRuntime\<rparr>"

definition emptyContext :: ValidationContext where
  "emptyContext = \<lparr>path_stack = [], issues = []\<rparr>"

definition garageData :: jsval where
  "garageData =
     JObj [(''vehicles'', JArr [JObj [(''manufacturer'', JNum 42), (''model'', JBool True)]])]"

definition garageResult :: jsval where
  "garageResult =
     JObj [(''vehicles'',
       JArr [JObj [(''year'', JNum 0), (''make'', JUndefined), (''model'', JStr ''UNKNOWN'')]])]"

definition garageContext :: ValidationContext where
  "garageContext =
     \<lparr>path_stack = [],
      issues =
        [ValidationIssue ''vehicles[0].manufacturer'' error
           ''Expected type string, but found: number'',
         ValidationIssue ''vehicles[0]'' error
           ''Required parameter not found: make,manufacturer'',
         ValidationIssue ''vehicles[0].model'' error
           ''Expected type string, but found: boolean'']\<rparr>"

definition vehiclesContext :: ValidationContext where
  "vehiclesContext = \<lparr>path_stack = [SegStr ''garages'', SegNum 2, SegStr ''vehicles''], issues = []\<rparr>"

definition twoVehicles :: "jsval list" where
  "twoVehicles = [JObj [(''make'', JStr ''Ford'')], JObj [(''make'', JNum 42)]]"

definition twoVehiclesResult :: "jsval list" where
  "twoVehiclesResult =
     [JObj [(''year'', JNum 0), (''make'', JStr ''Ford''), (''model'', JStr ''UNKNOWN'')],
      JObj [(''year'', JNum 0), (''make'', JUndefined), (''model'', JStr ''UNKNOWN'')]]"

definition twoVehiclesContext :: ValidationContext where
  "twoVehiclesContext =
     \<lparr>path_stack = [SegStr ''garages'', SegNum 2, SegStr ''vehicles''],
      issues =
        [ValidationIssue ''garages[2].vehicles[1].make'' error
           ''Expected type string, but found: number'',
         ValidationIssue ''garages[2].vehicles[1]'' error
           ''Required parameter not found: make,manufacturer'']\<rparr>"

text \<open>
  A garage whose vehicle is a string, and the state in which the lookup of \<open>make\<close> in that
  string throws. A class with a decorator on its second constructor parameter only:
  \<open>_parameters\<close> has a hole at index 0.
\<close>

definition fordData :: jsval where
  "fordData = JObj [(''vehicles'', JArr [JStr ''Ford''])]"

definition fordContext :: ValidationContext where
  "fordContext = \<lparr>path_stack = [SegStr ''vehicles'', SegNum 0], issues = []\<rparr>"

definition SecondOnly :: DecoratedType where
  "SecondOnly =
     \<lparr>construct = (\<lambda>params. [(''first'', arg params 0), (''second'', arg params 1)]),
      parameters = Declared [None, Some modelParameter],
      properties = Unspecified,
      parmeters = Unspecified, mapData = None, validateHook = None\<rparr>"

definition wrongType :: jsval where
  "wrongType = JObj [(''foo'', JNum 42)]"

definition wrongTypeContext :: ValidationContext where
  "wrongTypeContext =
     \<lparr>path_stack = [],
      issues = [ValidationIssue ''foo'' error ''Expected type string, but found: number'']\<rparr>"

definition noMake :: jsval where
  "noMake = JObj [(''model'', JStr ''T'')]"

definition badMake :: jsval where
  "badMake = JObj [(''make'', JNum 42)]"

definition badModel :: jsval where
  "badModel = JObj [(''model'', JNum 7)]"

definition yearData :: jsval where
  "yearData = JObj [(''year'', JNum 1969)]"

definition nullFoo :: jsval where
  "nullFoo = JObj [(''foo'', JNull)]"

text \<open>
  A required parameter under the alias \<open>constructor\<close>, a name that every object inherits;
  a parameter and a property of a nested type.
\<close>

definition constructorParameter :: MappingMetadata where
  "constructorParameter =
     makeMappingMetadata\<lparr>aliases := [SegStr ''constructor''], isRequired := True\<rparr>"

definition vehicleParameter :: MappingMetadata where
  "vehicleParameter = makeMappingMetadata\<lparr>mappedAs := Some ''Vehicle''\<rparr>"

definition vehiclesProperty :: MappingMetadata where
  "vehiclesProperty = makeMappingMetadata\<lparr>mappedAs := Some ''Vehicle'', isArray := True\<rparr>"

definition fordVehicle :: jsval where
  "fordVehicle = JObj [(''year'', JNum 0), (''make'', JStr ''Ford''), (''model'', JStr ''UNKNOWN'')]"

definition badModelContext :: ValidationContext where
  "badModelContext =
     \<lparr>path_stack = [],
      issues = [ValidationIssue ''model'' error ''Expected type string, but found: number'']\<rparr>"

definition missingMake :: ValidationContext where
  "missingMake =
     \<lparr>path_stack = [],
      issues = [ValidationIssue [] error ''Required parameter not found: make,manufacturer'']\<rparr>"

definition defaultedModel :: "jsval list" where
  "defaultedModel = [JUndefined, JStr ''UNKNOWN'']"

section \<open>Diagnostics: reporting, tracking, path strings\<close>

lemma reports_Nil [simp]: "reports [] ctx = ctx"
  by (simp add: reports_def)

lemma reports_Cons [simp]: "reports (r # rs) ctx = reports rs (addIssue ctx (fst r) (snd r))"
  by (simp add: reports_def split_def)

lemma reports_append: "reports (rs @ rs') ctx = reports rs' (reports rs ctx)"
  by (simp add: reports_def)

lemma reports_Tracking:
  "reports rs (Tracking ms inner) = Tracking (foldl track ms (map fst rs)) (reports rs inner)"
  by (induction rs arbitrary: ms inner) simp_all

lemma reports_Plain:
  "reports rs (Plain c) = Plain (c\<lparr>issues := issues c @ map (stamp (path_stack c)) rs\<rparr>)"
proof (induction rs arbitrary: c)
  case Nil
  show ?case by simp
next
  case (Cons r rs)
  show ?case by (simp add: Cons.IH vcAddIssue_def stamp_def)
qed

lemma sinkOf_reports:
  "sinkOf (reports rs ctx) =
     (sinkOf ctx)\<lparr>issues := issues (sinkOf ctx) @ map (stamp (path_stack (sinkOf ctx))) rs\<rparr>"
  by (induction ctx) (simp_all add: reports_Plain reports_Tracking)

lemma ctxInfo_addIssue: "ctxInfo ctx msg = addIssue ctx info msg"
  by (induction ctx) simp_all

lemma ctxWarn_addIssue: "ctxWarn ctx msg = addIssue ctx warn msg"
  by (induction ctx) simp_all

lemma ctxError_addIssue: "ctxError ctx msg = addIssue ctx error msg"
  by (induction ctx) simp_all

lemma levelNum_inj: "levelNum a = levelNum b \<Longrightarrow> a = b"
  by (cases a; cases b) simp_all

lemma track_Some_max:
  "track (Some m) lv = Some (if levelNum lv > levelNum m then lv else m)"
  by (cases m; cases lv) (simp_all add: track_def)

lemma foldl_track_Some:
  "\<exists>m'. foldl track (Some m) ls = Some m' \<and> m' \<in> insert m (set ls)
        \<and> levelNum m \<le> levelNum m' \<and> (\<forall>l \<in> set ls. levelNum l \<le> levelNum m')"
proof (induction ls arbitrary: m)
  case Nil
  show ?case by simp
next
  case (Cons l ls)
  let ?m1 = "if levelNum l > levelNum m then l else m"
  from Cons.IH [of ?m1] obtain m' where
    m': "foldl track (Some ?m1) ls = Some m'" "m' \<in> insert ?m1 (set ls)"
        "levelNum ?m1 \<le> levelNum m'" "\<forall>l \<in> set ls. levelNum l \<le> levelNum m'"
    by blast
  have "foldl track (Some m) (l # ls) = Some m'"
    using m'(1) by (simp add: track_Some_max)
  moreover have "m' \<in> insert m (set (l # ls))"
    using m'(2) by (auto split: if_splits)
  moreover have "levelNum m \<le> levelNum m'" "levelNum l \<le> levelNum m'"
    using m'(3) by (auto split: if_splits)
  ultimately show ?case using m'(4) by auto
qed

lemma foldl_track_isMaxOf: "isMaxOf ls (foldl track None ls)"
proof (cases ls)
  case Nil
  then show ?thesis by (simp add: isMaxOf_def)
next
  case (Cons l ls')
  from foldl_track_Some [of l ls'] obtain m' where
    "foldl track (Some l) ls' = Some m'" "m' \<in> insert l (set ls')"
    "levelNum l \<le> levelNum m'" "\<forall>x \<in> set ls'. levelNum x \<le> levelNum m'"
    by blast
  then show ?thesis using Cons by (simp add: isMaxOf_def track_def)
qed

lemma isMaxOf_error: "isMaxOf ls mo \<Longrightarrow> (mo = Some error) = (error \<in> set ls)"
proof (cases mo)
  case None
  assume "isMaxOf ls mo"
  with None show ?thesis by (simp add: isMaxOf_def)
next
  case (Some m)
  assume h: "isMaxOf ls mo"
  show ?thesis
  proof
    assume "mo = Some error"
    with h show "error \<in> set ls" by (simp add: isMaxOf_def)
  next
    assume e: "error \<in> set ls"
    with h Some have "levelNum error \<le> levelNum m" by (auto simp: isMaxOf_def)
    then have "m = error" by (cases m) simp_all
    with Some show "mo = Some error" by simp
  qed
qed

lemma isMaxOf_unique: "isMaxOf ls a \<Longrightarrow> isMaxOf ls b \<Longrightarrow> a = b"
  by (cases a; cases b) (auto simp: isMaxOf_def intro: levelNum_inj le_antisym)

lemma pathStringLoop_append:
  "pathStringLoop str (ps @ qs) = pathStringLoop (pathStringLoop str ps) qs"
  by (induction str ps rule: pathStringLoop.induct) simp_all

lemma pathString_snoc_str:
  "pathString (ps @ [SegStr s]) =
     (if pathString ps \<noteq> [] then pathString ps @ ''.'' @ s else s)"
  by (simp add: pathString_def pathStringLoop_append)

lemma pathString_snoc_num:
  "pathString (ps @ [SegNum n]) = pathString ps @ ''['' @ showNum n @ '']''"
  by (simp add: pathString_def pathStringLoop_append)

lemma pathStringLoop_nonempty:
  "str \<noteq> [] \<Longrightarrow> pathStringLoop str ps = str @ concat (map laterSegment ps)"
proof (induction ps arbitrary: str)
  case Nil
  show ?case by simp
next
  case (Cons p ps)
  show ?case
  proof (cases p)
    case (SegStr s)
    have "str @ ''.'' @ s \<noteq> []" using Cons.prems by simp
    from Cons.IH [OF this] show ?thesis using SegStr Cons.prems by simp
  next
    case (SegNum n)
    have "str @ ''['' @ showNum n @ '']'' \<noteq> []" by simp
    from Cons.IH [OF this] show ?thesis using SegNum by simp
  qed
qed

lemma pathString_specPath:
  assumes "ps = [] \<or> hd ps \<noteq> SegStr []"
  shows "pathString ps = specPath ps"
proof (cases ps)
  case Nil
  then show ?thesis by (simp add: pathString_def)
next
  case (Cons p qs)
  show ?thesis
  proof (cases p)
    case (SegStr s)
    with assms Cons have "s \<noteq> []" by simp
    then show ?thesis
      using Cons SegStr by (simp add: pathString_def pathStringLoop_nonempty)
  next
    case (SegNum n)
    have "''['' @ showNum n @ '']'' \<noteq> []" by simp
    from pathStringLoop_nonempty [OF this, of qs] show ?thesis
      using Cons SegNum by (simp add: pathString_def)
  qed
qed

lemma showNum_2: "showNum 2 = ''2''"
  by (simp add: showNum.simps [of 2] digit_def)

text \<open>
  Claim C8, as amended. \<open>pathString\<close> renders a numeric segment as \<open>[n]\<close> with no separator
  and puts a dot before a string segment exactly when the text rendered so far is not
  empty. For every path stack whose first segment is not the empty string this is the
  rule of the specification (\<open>specPath\<close>: a dot before every string segment but the
  first), and \<open>["items", 2, "name"]\<close> is rendered as \<open>items[2].name\<close>.
\<close>

theorem pathString_rendering:
  "pathString [] = []
   \<and> pathString (ps @ [SegNum n]) = pathString ps @ ''['' @ showNum n @ '']''
   \<and> pathString (ps @ [SegStr s]) = (if pathString ps \<noteq> [] then pathString ps @ ''.'' @ s else s)
   \<and> (ps = [] \<or> hd ps \<noteq> SegStr [] \<longrightarrow> pathString ps = specPath ps)
   \<and> pathString [SegStr ''items'', SegNum 2, SegStr ''name''] = ''items[2].name''"
proof -
  have "pathString [SegStr ''items'', SegNum 2, SegStr ''name''] = ''items[2].name''"
    by (simp add: pathString_def showNum_2)
  moreover have "pathString [] = []" by (simp add: pathString_def)
  ultimately show ?thesis
    using pathString_snoc_num pathString_snoc_str pathString_specPath by blast
qed

theorem pathString_rendering_witness:
  "hd [SegStr ''items'', SegNum 2] \<noteq> SegStr []
   \<and> pathString [SegStr ''items'', SegNum 2] = specPath [SegStr ''items'', SegNum 2]
   \<and> specPath [SegStr ''items'', SegNum 2] = ''items[2]''"
proof -
  have h: "hd [SegStr ''items'', SegNum 2] \<noteq> SegStr []" by simp
  have "specPath [SegStr ''items'', SegNum 2] = ''items[2]''"
    by (simp add: showNum_2)
  then show ?thesis
    using h pathString_rendering [of "[SegStr ''items'', SegNum 2]"] by simp
qed

text \<open>
  Claim C8 as stated, for every path stack, fails where the first segment is the empty
  string: \<open>["", "a"]\<close> is rendered as \<open>a\<close>, and joining with a dot gives \<open>.a\<close>.
\<close>

theorem pathString_empty_first_counterexample:
  "pathString [SegStr [], SegStr ''a''] = ''a''
   \<and> specPath [SegStr [], SegStr ''a''] = ''.a''"
  by (simp add: pathString_def)


lemma validateValue_reports:
  assumes "\<forall>ctx. foldl (\<lambda>tc validation. validation v tc) ctx vs = reports rs ctx"
  shows "validateValue vs v c =
           (foldl track None (map fst rs), c\<lparr>issues := issues c @ map (stamp (path_stack c)) rs\<rparr>)"
  using assms by (simp add: validateValue_def reports_Tracking reports_Plain)

lemma validateValue_list:
  assumes "list_all2 (\<lambda>f rs. \<forall>ctx. f v ctx = reports rs ctx) vs rss"
  shows "\<forall>ctx. foldl (\<lambda>tc validation. validation v tc) ctx vs = reports (concat rss) ctx"
  using assms
  by (induction vs rss rule: list_all2_induct) (simp_all add: reports_append)

text \<open>
  Claim C5. After any sequence of issues reported through a tracking context around an
  inner sink, \<open>maximumSeverity\<close> is the maximum of the reported levels (undefined when
  nothing was reported), and the inner sink has received the same reports in the same
  order; on the plain context they become issues with unchanged level and message, under
  the path of that moment. The methods \<open>info\<close>, \<open>warn\<close> and \<open>error\<close> are \<open>addIssue\<close> at
  their level. When the validations \<open>vs\<close> of a field report \<open>rss\<close> on the value (the first
  validation the first list, and so on), \<open>validateValue\<close> adds exactly these reports, of
  every validation of the list and in that order, to the issues of the context, and
  returns the maximum of their levels.
\<close>

theorem tracking_maximum:
  "isMaxOf (map fst rs) (maximumSeverity (reports rs (Tracking None inner)))
   \<and> wrapped (reports rs (Tracking None inner)) = reports rs inner
   \<and> sinkOf (reports rs (Plain c)) = c\<lparr>issues := issues c @ map (stamp (path_stack c)) rs\<rparr>
   \<and> ctxInfo ctx msg = addIssue ctx info msg
   \<and> ctxWarn ctx msg = addIssue ctx warn msg
   \<and> ctxError ctx msg = addIssue ctx error msg
   \<and> (list_all2 (\<lambda>f r. \<forall>ctx. f v ctx = reports r ctx) vs rss \<longrightarrow>
        snd (validateValue vs v c)
          = c\<lparr>issues := issues c @ map (stamp (path_stack c)) (concat rss)\<rparr>
        \<and> isMaxOf (map fst (concat rss)) (fst (validateValue vs v c)))"
proof -
  have "list_all2 (\<lambda>f r. \<forall>ctx. f v ctx = reports r ctx) vs rss \<longrightarrow>
        snd (validateValue vs v c)
          = c\<lparr>issues := issues c @ map (stamp (path_stack c)) (concat rss)\<rparr>
        \<and> isMaxOf (map fst (concat rss)) (fst (validateValue vs v c))"
  proof
    assume "list_all2 (\<lambda>f r. \<forall>ctx. f v ctx = reports r ctx) vs rss"
    from validateValue_reports [OF validateValue_list [OF this], of c]
    show "snd (validateValue vs v c)
            = c\<lparr>issues := issues c @ map (stamp (path_stack c)) (concat rss)\<rparr>
          \<and> isMaxOf (map fst (concat rss)) (fst (validateValue vs v c))"
      by (simp add: foldl_track_isMaxOf)
  qed
  moreover have "isMaxOf (map fst rs) (maximumSeverity (reports rs (Tracking None inner)))"
    by (simp add: reports_Tracking foldl_track_isMaxOf)
  moreover have "wrapped (reports rs (Tracking None inner)) = reports rs inner"
    by (simp add: reports_Tracking)
  moreover have "sinkOf (reports rs (Plain c))
                   = c\<lparr>issues := issues c @ map (stamp (path_stack c)) rs\<rparr>"
    by (simp add: reports_Plain)
  ultimately show ?thesis
    using ctxInfo_addIssue ctxWarn_addIssue ctxError_addIssue by blast
qed

lemma refine_invoke:
  assumes C: "\<forall>ctx. C v ctx = reports rc ctx" and run: "\<not> ign \<or> \<not> nullish v"
  shows "invoke (refineValidatorChain C N ign) v d =
           (if foldl track None (map fst rc) = Some error then reports rc d
            else wrapped (N v (Tracking (foldl track None (map fst rc)) (reports rc d))))"
  using run by (auto simp: refineValidatorChain_def C reports_Tracking Let_def)

lemma refine_reports:
  assumes C: "\<forall>ctx. C v ctx = reports rc ctx" and N: "\<forall>ctx. N v ctx = reports rn ctx"
    and run: "\<not> ign \<or> \<not> nullish v"
  shows "invoke (refineValidatorChain C N ign) v d =
           reports (rc @ (if foldl track None (map fst rc) = Some error then [] else rn)) d"
  using refine_invoke [of C v rc ign N d] C run
  by (simp add: N reports_Tracking reports_append)

lemma refine_run:
  assumes C: "\<forall>ctx. C v ctx = reports rc ctx" and run: "\<not> ign \<or> \<not> nullish v"
  shows "\<exists>mo. isMaxOf (map fst rc) mo
      \<and> (mo = Some error) = (error \<in> set (map fst rc))
      \<and> C v (Tracking None d) = Tracking mo (reports rc d)
      \<and> invoke (refineValidatorChain C N ign) v d =
          (if mo = Some error then reports rc d
           else wrapped (N v (Tracking mo (reports rc d))))
      \<and> (\<forall>rn. (\<forall>ctx. N v ctx = reports rn ctx) \<longrightarrow>
            (\<forall>ctx. invoke (refineValidatorChain C N ign) v ctx =
                     reports (rc @ (if mo = Some error then [] else rn)) ctx)
          \<and> (\<forall>N2. \<exists>mo2. isMaxOf (map fst (rc @ (if mo = Some error then [] else rn))) mo2
                \<and> invoke (refine (refineValidatorChain C N ign) N2) v d =
                    (if mo2 = Some error
                     then reports (rc @ (if mo = Some error then [] else rn)) d
                     else wrapped (N2 v (Tracking mo2
                            (reports (rc @ (if mo = Some error then [] else rn)) d))))))"
proof -
  let ?mo = "foldl track None (map fst rc)"
  have a: "isMaxOf (map fst rc) ?mo" by (rule foldl_track_isMaxOf)
  have a': "(?mo = Some error) = (error \<in> set (map fst rc))"
    using a by (rule isMaxOf_error)
  have b: "C v (Tracking None d) = Tracking ?mo (reports rc d)"
    by (simp add: C reports_Tracking)
  have c: "invoke (refineValidatorChain C N ign) v d =
          (if ?mo = Some error then reports rc d
           else wrapped (N v (Tracking ?mo (reports rc d))))"
    using refine_invoke [of C v rc ign N d] C run by blast
  have d: "(\<forall>ctx. invoke (refineValidatorChain C N ign) v ctx =
                     reports (rc @ (if ?mo = Some error then [] else rn)) ctx)
          \<and> (\<forall>N2. \<exists>mo2. isMaxOf (map fst (rc @ (if ?mo = Some error then [] else rn))) mo2
                \<and> invoke (refine (refineValidatorChain C N ign) N2) v d =
                    (if mo2 = Some error
                     then reports (rc @ (if ?mo = Some error then [] else rn)) d
                     else wrapped (N2 v (Tracking mo2
                            (reports (rc @ (if ?mo = Some error then [] else rn)) d)))))"
    if N: "\<forall>ctx. N v ctx = reports rn ctx" for rn
  proof -
    let ?all = "rc @ (if ?mo = Some error then [] else rn)"
    have all: "\<forall>ctx. invoke (refineValidatorChain C N ign) v ctx = reports ?all ctx"
    proof
      fix ctx
      show "invoke (refineValidatorChain C N ign) v ctx = reports ?all ctx"
        using refine_reports [of C v rc N rn ign ctx] C N run by blast
    qed
    have ign: "ignoreNull (refineValidatorChain C N ign) = ign"
      by (simp add: refineValidatorChain_def)
    have "invoke (refine (refineValidatorChain C N ign) N2) v d =
            (if foldl track None (map fst ?all) = Some error then reports ?all d
             else wrapped (N2 v (Tracking (foldl track None (map fst ?all)) (reports ?all d))))"
      for N2
      unfolding refine_def ign
      using refine_invoke [of "invoke (refineValidatorChain C N ign)" v ?all ign N2 d] all run
      by blast
    moreover have "isMaxOf (map fst ?all) (foldl track None (map fst ?all))"
      by (rule foldl_track_isMaxOf)
    ultimately show ?thesis using all by blast
  qed
  from a a' b c d show ?thesis by blast
qed

text \<open>
  Claim C2, as amended. Let the chain \<open>C\<close> report \<open>rc\<close> on the value \<open>v\<close>. If the refined
  chain was built with \<open>ignoreNull\<close> and \<open>v\<close> is null or undefined, it runs neither \<open>C\<close> nor
  \<open>N\<close> and leaves the caller's context \<open>d\<close> as it is. Otherwise it runs \<open>C\<close> against a fresh
  tracking wrapper around \<open>d\<close>; with \<open>mo\<close> the maximum level that \<open>C\<close> reported, it runs \<open>N\<close>
  exactly when \<open>mo\<close> is not error, on the same value \<open>v\<close> and on that same wrapper, which
  holds \<open>mo\<close> and wraps \<open>d\<close> after \<open>C\<close>'s reports; when \<open>mo\<close> is error, \<open>N\<close> is not run and
  only \<open>C\<close>'s reports reach \<open>d\<close>. When \<open>N\<close> only reports too, the refined chain reports
  \<open>C\<close>'s issues followed by \<open>N\<close>'s to whatever context it is given, so a further stage
  \<open>N2\<close> is gated by the maximum over both earlier stages.
\<close>

theorem refine_gating:
  assumes C: "\<forall>ctx. C v ctx = reports rc ctx"
  shows "(ign \<and> nullish v \<longrightarrow> invoke (refineValidatorChain C N ign) v d = d)
   \<and> (\<not> ign \<or> \<not> nullish v \<longrightarrow>
     (\<exists>mo. isMaxOf (map fst rc) mo
      \<and> (mo = Some error) = (error \<in> set (map fst rc))
      \<and> C v (Tracking None d) = Tracking mo (reports rc d)
      \<and> invoke (refineValidatorChain C N ign) v d =
          (if mo = Some error then reports rc d
           else wrapped (N v (Tracking mo (reports rc d))))
      \<and> (\<forall>rn. (\<forall>ctx. N v ctx = reports rn ctx) \<longrightarrow>
            (\<forall>ctx. invoke (refineValidatorChain C N ign) v ctx =
                     reports (rc @ (if mo = Some error then [] else rn)) ctx)
          \<and> (\<forall>N2. \<exists>mo2. isMaxOf (map fst (rc @ (if mo = Some error then [] else rn))) mo2
                \<and> invoke (refine (refineValidatorChain C N ign) N2) v d =
                    (if mo2 = Some error
                     then reports (rc @ (if mo = Some error then [] else rn)) d
                     else wrapped (N2 v (Tracking mo2
                            (reports (rc @ (if mo = Some error then [] else rn)) d))))))))"
proof (intro conjI impI)
  assume "ign \<and> nullish v"
  then show "invoke (refineValidatorChain C N ign) v d = d"
    by (simp add: refineValidatorChain_def)
next
  assume "\<not> ign \<or> \<not> nullish v"
  with C show "\<exists>mo. isMaxOf (map fst rc) mo
      \<and> (mo = Some error) = (error \<in> set (map fst rc))
      \<and> C v (Tracking None d) = Tracking mo (reports rc d)
      \<and> invoke (refineValidatorChain C N ign) v d =
          (if mo = Some error then reports rc d
           else wrapped (N v (Tracking mo (reports rc d))))
      \<and> (\<forall>rn. (\<forall>ctx. N v ctx = reports rn ctx) \<longrightarrow>
            (\<forall>ctx. invoke (refineValidatorChain C N ign) v ctx =
                     reports (rc @ (if mo = Some error then [] else rn)) ctx)
          \<and> (\<forall>N2. \<exists>mo2. isMaxOf (map fst (rc @ (if mo = Some error then [] else rn))) mo2
                \<and> invoke (refine (refineValidatorChain C N ign) N2) v d =
                    (if mo2 = Some error
                     then reports (rc @ (if mo = Some error then [] else rn)) d
                     else wrapped (N2 v (Tracking mo2
                            (reports (rc @ (if mo = Some error then [] else rn)) d))))))"
    by (rule refine_run)
qed

theorem refine_gating_witness:
  "(\<forall>ctx. isStringCheck (JStr ''two'') ctx = reports [] ctx)
   \<and> \<not> nullish (JStr ''two'')
   \<and> invoke (refineValidatorChain isStringCheck (maxLengthCheck 1 error None) True)
        (JStr ''two'') (Plain \<lparr>path_stack = [SegStr ''foo''], issues = []\<rparr>)
       = Plain \<lparr>path_stack = [SegStr ''foo''],
                issues = [ValidationIssue ''foo'' error
                            ''Maximum length exceeded (max: 1, actual: 3)'']\<rparr>
   \<and> (\<forall>ctx. isStringCheck JNull ctx
          = reports [(error, ''Expected type string, but found: object'')] ctx)
   \<and> nullish JNull
   \<and> invoke (refineValidatorChain isStringCheck (maxLengthCheck 1 error None) True)
        JNull (Plain \<lparr>path_stack = [SegStr ''foo''], issues = []\<rparr>)
       = Plain \<lparr>path_stack = [SegStr ''foo''], issues = []\<rparr>"
proof -
  let ?d = "Plain \<lparr>path_stack = [SegStr ''foo''], issues = []\<rparr>"
  have C: "\<forall>ctx. isStringCheck (JStr ''two'') ctx = reports [] ctx"
    by (simp add: isStringCheck_def)
  have run: "\<not> True \<or> \<not> nullish (JStr ''two'')" by simp
  from refine_gating [of isStringCheck "JStr ''two''" "[]" True "maxLengthCheck 1 error None" ?d,
      OF C, THEN conjunct2, THEN mp, OF run]
  obtain mo where mo: "isMaxOf (map fst ([] :: (IssueLevel \<times> string) list)) mo"
    and inv: "invoke (refineValidatorChain isStringCheck (maxLengthCheck 1 error None) True)
                (JStr ''two'') ?d =
              (if mo = Some error then reports [] ?d
               else wrapped (maxLengthCheck 1 error None (JStr ''two'')
                               (Tracking mo (reports [] ?d))))"
    by blast
  from mo have "mo = None" by (cases mo) (simp_all add: isMaxOf_def)
  with inv have "invoke (refineValidatorChain isStringCheck (maxLengthCheck 1 error None) True)
                (JStr ''two'') ?d =
              wrapped (maxLengthCheck 1 error None (JStr ''two'') (Tracking None ?d))"
    by simp
  also have "\<dots> = Plain \<lparr>path_stack = [SegStr ''foo''],
                issues = [ValidationIssue ''foo'' error
                            ''Maximum length exceeded (max: 1, actual: 3)'']\<rparr>"
    by code_simp
  finally have a: "invoke (refineValidatorChain isStringCheck (maxLengthCheck 1 error None) True)
        (JStr ''two'') ?d
       = Plain \<lparr>path_stack = [SegStr ''foo''],
                issues = [ValidationIssue ''foo'' error
                            ''Maximum length exceeded (max: 1, actual: 3)'']\<rparr>" .
  have Cn: "\<forall>ctx. isStringCheck JNull ctx
          = reports [(error, ''Expected type string, but found: object'')] ctx"
    by (simp add: isStringCheck_def ctxError_addIssue)
  have skip: "True \<and> nullish JNull" by simp
  from refine_gating [of isStringCheck JNull
      "[(error, ''Expected type string, but found: object'')]" True
      "maxLengthCheck 1 error None" ?d, OF Cn, THEN conjunct1, THEN mp, OF skip]
  have b: "invoke (refineValidatorChain isStringCheck (maxLengthCheck 1 error None) True)
        JNull ?d = ?d" .
  from a b C Cn show ?thesis by simp
qed

text \<open>
  Claim C2 as stated fails for a chain built with \<open>ignoreNull\<close> on the value \<open>null\<close>: the
  maximum that \<open>C\<close> leaves in a tracking wrapper is not error, the stage \<open>N\<close> would report
  on that wrapper, and yet the refined chain delivers nothing.
\<close>

theorem refine_null_counterexample:
  "maximumSeverity (invoke (nullableIsString nullable) JNull (Tracking None (Plain emptyContext)))
     \<noteq> Some error
   \<and> wrapped (ctxInfo (invoke (nullableIsString nullable) JNull (Tracking None (Plain emptyContext)))
        ''seen'') \<noteq> Plain emptyContext
   \<and> invoke (refine (nullableIsString nullable) (\<lambda>v ctx. ctxInfo ctx ''seen'')) JNull
        (Plain emptyContext) = Plain emptyContext"
  by (simp add: refine_def refineValidatorChain_def nullableIsString_def makeValidatorChain_def
        emptyContext_def vcAddIssue_def)

theorem tracking_maximum_witness:
  "list_all2 (\<lambda>f r. \<forall>ctx. f (JNum 42) ctx = reports r ctx)
     [isStringCheck, \<lambda>v ctx. ctxWarn ctx ''odd'', \<lambda>v ctx. ctxInfo ctx ''seen'']
     [[(error, ''Expected type string, but found: number'')], [(warn, ''odd'')],
      [(info, ''seen'')]]
   \<and> snd (validateValue
            [isStringCheck, \<lambda>v ctx. ctxWarn ctx ''odd'', \<lambda>v ctx. ctxInfo ctx ''seen'']
            (JNum 42) \<lparr>path_stack = [SegStr ''foo''], issues = []\<rparr>)
       = \<lparr>path_stack = [SegStr ''foo''],
          issues = [ValidationIssue ''foo'' error ''Expected type string, but found: number'',
                    ValidationIssue ''foo'' warn ''odd'',
                    ValidationIssue ''foo'' info ''seen'']\<rparr>
   \<and> fst (validateValue
            [isStringCheck, \<lambda>v ctx. ctxWarn ctx ''odd'', \<lambda>v ctx. ctxInfo ctx ''seen'']
            (JNum 42) \<lparr>path_stack = [SegStr ''foo''], issues = []\<rparr>)
       = Some error"
proof -
  let ?vs = "[isStringCheck, \<lambda>v ctx. ctxWarn ctx ''odd'', \<lambda>v ctx. ctxInfo ctx ''seen'']"
  let ?rss = "[[(error, ''Expected type string, but found: number'')], [(warn, ''odd'')],
               [(info, ''seen'')]]"
  let ?c = "\<lparr>path_stack = [SegStr ''foo''], issues = []\<rparr>"
  have h: "list_all2 (\<lambda>f r. \<forall>ctx. f (JNum 42) ctx = reports r ctx) ?vs ?rss"
    by (simp add: isStringCheck_def ctxError_addIssue ctxWarn_addIssue ctxInfo_addIssue)
  note tm = tracking_maximum [where vs = ?vs and v = "JNum 42" and c = ?c and rss = ?rss]
  from tm h
  have s: "snd (validateValue ?vs (JNum 42) ?c)
             = ?c\<lparr>issues := issues ?c @ map (stamp (path_stack ?c)) (concat ?rss)\<rparr>"
    and m: "isMaxOf (map fst (concat ?rss)) (fst (validateValue ?vs (JNum 42) ?c))"
    by blast+
  from m have e: "fst (validateValue ?vs (JNum 42) ?c) = Some error"
    by (simp add: isMaxOf_error)
  from s have "snd (validateValue ?vs (JNum 42) ?c)
       = \<lparr>path_stack = [SegStr ''foo''],
          issues = [ValidationIssue ''foo'' error ''Expected type string, but found: number'',
                    ValidationIssue ''foo'' warn ''odd'',
                    ValidationIssue ''foo'' info ''seen'']\<rparr>"
    by (simp add: stamp_def pathString_def)
  with h e show ?thesis by blast
qed

section \<open>The engine: path scoping\<close>






lemma pop_push [simp]: "pop (push a c) = c"
  by (simp add: pop_def push_def)





lemma obind_Return:
  "obind x f = Return y \<Longrightarrow> \<exists>a. x = Return a \<and> f a = Return y"
  by (cases x) simp_all



lemma during_Return_iff [simp]: "(during s x = Return a) = (x = Return a)"
  by (cases x) simp_all































section \<open>The examples keep to the interface\<close>



lemma respects_refineValidatorChain:
  assumes "respectsInterface C" and "respectsInterface N"
  shows "respectsInterface (invoke (refineValidatorChain C N ign))"
  unfolding respectsInterface_def
proof
  fix v
  from assms obtain rc rn where rc: "\<forall>ctx. C v ctx = reports rc ctx"
    and rn: "\<forall>ctx. N v ctx = reports rn ctx"
    unfolding respectsInterface_def by blast
  show "\<exists>rs. \<forall>ctx. invoke (refineValidatorChain C N ign) v ctx = reports rs ctx"
  proof (cases "\<not> ign \<or> \<not> nullish v")
    case True
    have "\<forall>ctx. invoke (refineValidatorChain C N ign) v ctx =
            reports (rc @ (if foldl track None (map fst rc) = Some error then [] else rn)) ctx"
    proof
      fix ctx
      show "invoke (refineValidatorChain C N ign) v ctx =
            reports (rc @ (if foldl track None (map fst rc) = Some error then [] else rn)) ctx"
        using refine_reports [of C v rc N rn ign ctx] rc rn True by blast
    qed
    then show ?thesis by blast
  next
    case False
    then have "\<forall>ctx. invoke (refineValidatorChain C N ign) v ctx = reports [] ctx"
      by (simp add: refineValidatorChain_def)
    then show ?thesis by blast
  qed
qed






section \<open>Evaluation of the examples\<close>

text \<open>
  The engine is evaluated by rewriting with its defining equations; the second argument
  of \<open>obind\<close> is left alone until the first is a value.
\<close>

lemma obind_weak_cong: "x = y \<Longrightarrow> obind x f = obind y f"
  by simp

lemma showNum_digit: "n < 10 \<Longrightarrow> showNum n = [digit n]"
  by (simp add: showNum.simps [of n])

lemma internalCreateInstance_2:
  "internalCreateInstance 2 e = createInstance (internalCreateInstance 1 e) e"
  by (simp add: numeral_2_eq_2)

lemmas engine_defs =
  internalCreateInstance_2
  createInstance_def paramStep_def propStep_def processFound_def handleRecursiveMapping_def
  getProperty_def validateValue_def runMapData_def runValidateHook_def ifEmpty_def
  aliasesOf_def requiredOf_def defaultOf_def setIndex_def push_def pop_def vcError_def
  vcAddIssue_def pathString_def makeValidatorChain_def refineValidatorChain_def
  isStringCheck_def isString_def nullable_def nullableIsString_def track_def
  showNum_digit digit_def convert_def isDecoratedType_def objectOrUnspecified_def
  arrayOrUnspecified_def inheritedMember_def

lemmas example_defs =
  exampleEnv_def Vehicle_def Garage_def TestNullableValidateExample_def
  makeParameter_def modelParameter_def fooProperty_def makeMappingMetadata_def arg_def
  emptyContext_def garageData_def garageResult_def garageContext_def vehiclesContext_def
  wrongType_def wrongTypeContext_def objectPrototype_def objectFunctions_def
  arrayFunctions_def functionFunctions_def twoVehicles_def twoVehiclesResult_def
  twoVehiclesContext_def fordData_def fordContext_def SecondOnly_def








section \<open>The top level\<close>

lemma typeErrorOnly_obind:
  "typeErrorOnly x \<Longrightarrow> (\<And>a. typeErrorOnly (f a)) \<Longrightarrow> typeErrorOnly (obind x f)"
  by (cases x) simp_all

lemma typeErrorOnly_during: "typeErrorOnly (during s x) = typeErrorOnly x"
  by (cases x) simp_all

lemma typeErrorOnly_leave: "typeErrorOnly (leave x) = typeErrorOnly x"
  by (cases x) simp_all

lemma typeErrorOnly_hasProperty: "typeErrorOnly (hasProperty inh k v)"
  by (cases v) simp_all

lemma typeErrorOnly_walkParts: "typeErrorOnly (walkParts inh tk parts current)"
proof (induction parts arbitrary: current)
  case Nil
  show ?case by simp
next
  case (Cons part parts)
  show ?case
    by (simp add: Cons.IH typeErrorOnly_obind typeErrorOnly_hasProperty)
qed

lemma typeErrorOnly_getProperty: "typeErrorOnly (getProperty inh tk a data)"
  by (cases a)
     (simp_all add: getProperty_def typeErrorOnly_walkParts typeErrorOnly_obind
        typeErrorOnly_hasProperty)

lemma typeErrorOnly_mapElements:
  assumes "\<And>ctor data c. typeErrorOnly (rec ctor data c)"
  shows "typeErrorOnly (mapElements rec ctor vs ix c)"
proof (induction vs arbitrary: ix c)
  case Nil
  show ?case by simp
next
  case (Cons v vs)
  show ?case
    by (auto simp: assms Cons.IH intro!: typeErrorOnly_obind)
qed

lemma typeErrorOnly_handleRecursiveMapping:
  assumes "\<And>ctor data c. typeErrorOnly (rec ctor data c)"
  shows "typeErrorOnly (handleRecursiveMapping rec ctor isArr data c)"
  unfolding handleRecursiveMapping_def
  by (cases data)
     (auto simp: assms typeErrorOnly_mapElements [OF assms] intro!: typeErrorOnly_obind)

lemma typeErrorOnly_processFound:
  assumes "\<And>ctor data c. typeErrorOnly (rec ctor data c)"
  shows "typeErrorOnly (processFound rec e mapping a v c)"
  unfolding processFound_def Let_def split_def
  by (auto simp: typeErrorOnly_handleRecursiveMapping [OF assms]
        split: option.splits intro!: typeErrorOnly_obind)

lemma typeErrorOnly_resolveAliases:
  assumes "\<And>ctor data c. typeErrorOnly (rec ctor data c)"
  shows "typeErrorOnly (resolveAliases rec e mapping as data c)"
proof (induction as)
  case Nil
  show ?case by simp
next
  case (Cons a as)
  show ?case
    by (auto simp: Cons.IH typeErrorOnly_getProperty typeErrorOnly_during
          typeErrorOnly_processFound [OF assms] intro!: typeErrorOnly_obind)
qed

lemma typeErrorOnly_paramStep:
  assumes "\<And>ctor data c. typeErrorOnly (rec ctor data c)"
  shows "typeErrorOnly (paramStep rec e data mapping index acc)"
  unfolding paramStep_def
  by (auto simp: typeErrorOnly_resolveAliases [OF assms]
        split: prod.splits option.splits intro!: typeErrorOnly_obind)

lemma typeErrorOnly_paramPass:
  assumes "\<And>ctor data c. typeErrorOnly (rec ctor data c)"
  shows "typeErrorOnly (paramPass rec e data ms index acc)"
proof (induction ms arbitrary: index acc)
  case Nil
  show ?case by simp
next
  case (Cons m ms)
  show ?case
    by (auto simp: Cons.IH typeErrorOnly_paramStep [OF assms] intro!: typeErrorOnly_obind)
qed

lemma typeErrorOnly_propStep:
  assumes "\<And>ctor data c. typeErrorOnly (rec ctor data c)"
  shows "typeErrorOnly (propStep rec e data entry acc)"
  unfolding propStep_def
  by (auto simp: typeErrorOnly_resolveAliases [OF assms]
        split: prod.splits option.splits intro!: typeErrorOnly_obind)

lemma typeErrorOnly_propPass:
  assumes "\<And>ctor data c. typeErrorOnly (rec ctor data c)"
  shows "typeErrorOnly (propPass rec e data ps acc)"
proof (induction ps arbitrary: acc)
  case Nil
  show ?case by simp
next
  case (Cons p ps)
  show ?case
    by (auto simp: Cons.IH typeErrorOnly_propStep [OF assms] intro!: typeErrorOnly_obind)
qed

lemma typeErrorOnly_createInstance:
  assumes "\<And>ctor data c. typeErrorOnly (rec ctor data c)"
  shows "typeErrorOnly (createInstance rec e ctor data c)"
  unfolding createInstance_def
  by (auto simp: typeErrorOnly_paramPass [OF assms] typeErrorOnly_propPass [OF assms]
        split: prod.splits static.splits intro!: typeErrorOnly_obind)

lemma typeErrorOnly_internalCreateInstance:
  "typeErrorOnly (internalCreateInstance depth e ctor data c)"
proof (induction depth arbitrary: ctor data c)
  case 0
  show ?case by simp
next
  case (Suc depth)
  show ?case by (simp add: typeErrorOnly_createInstance Suc.IH)
qed

text \<open>
  Claim C1, as amended. For a type that \<open>isDecoratedType\<close> accepts: with a callback,
  \<open>convert\<close> never ends in a \<open>ValidationError\<close> (the only exception that can escape is a
  \<open>TypeError\<close> of a property lookup during construction). When the construction returns
  the instance \<open>result\<close> with the diagnostics \<open>c\<close>: with a callback, \<open>convert\<close> returns
  \<open>result\<close>, whatever the issues are, and the caller's state is the callback applied once
  to \<open>result\<close> and \<open>c\<close>; without one, \<open>convert\<close> throws a \<open>ValidationError\<close> if and only if
  some issue has error level, its message gives the number of error issues and their
  messages joined by commas, and it carries \<open>c\<close>; otherwise it returns \<open>result\<close>.
\<close>

theorem convert_completion:
  "isDecoratedType ctor \<longrightarrow>
     typeErrorOnly (convert depth e ctor data (Some cb) w)
     \<and> (internalCreateInstance depth e ctor data \<lparr>path_stack = [], issues = []\<rparr>
           = Return (result, c) \<longrightarrow>
         convert depth e ctor data (Some cb) w = Return (result, cb result c w)
         \<and> convert depth e ctor data None w =
             (if \<exists>iss \<in> set (issues c). level iss = error then
                Throw (ValidationError
                  (''Validation failed with ''
                     @ showNum (length (filter (\<lambda>iss. level iss = error) (issues c)))
                     @ '' errors: ''
                     @ joinWith '','' (map message (filter (\<lambda>iss. level iss = error) (issues c))))
                  c) ()
              else Return (result, w)))"
proof (intro impI conjI)
  assume dec: "isDecoratedType ctor"
  show "typeErrorOnly (convert depth e ctor data (Some cb) w)"
    using dec
    by (auto simp: convert_def typeErrorOnly_internalCreateInstance typeErrorOnly_leave
          intro!: typeErrorOnly_obind)
next
  assume dec: "isDecoratedType ctor"
    and built: "internalCreateInstance depth e ctor data \<lparr>path_stack = [], issues = []\<rparr>
                  = Return (result, c)"
  show "convert depth e ctor data (Some cb) w = Return (result, cb result c w)"
    using dec built by (simp add: convert_def)
next
  assume dec: "isDecoratedType ctor"
    and built: "internalCreateInstance depth e ctor data \<lparr>path_stack = [], issues = []\<rparr>
                  = Return (result, c)"
  have "filter (\<lambda>iss. level iss = error) (issues c) \<noteq> []
          \<longleftrightarrow> (\<exists>iss \<in> set (issues c). level iss = error)"
    by (simp add: filter_empty_conv)
  then show "convert depth e ctor data None w =
             (if \<exists>iss \<in> set (issues c). level iss = error then
                Throw (ValidationError
                  (''Validation failed with ''
                     @ showNum (length (filter (\<lambda>iss. level iss = error) (issues c)))
                     @ '' errors: ''
                     @ joinWith '','' (map message (filter (\<lambda>iss. level iss = error) (issues c))))
                  c) ()
              else Return (result, w))"
    using dec built by (simp add: convert_def Let_def)
qed

lemma wrongType_run:
  "internalCreateInstance 1 exampleEnv TestNullableValidateExample wrongType
     \<lparr>path_stack = [], issues = []\<rparr>
   = Return (JObj [(''foo'', JStr ''def'')], wrongTypeContext)"
  by (simp add: engine_defs example_defs cong: obind_weak_cong)

lemma isDecoratedType_TestNullableValidateExample:
  "isDecoratedType TestNullableValidateExample"
  by (simp add: isDecoratedType_def objectOrUnspecified_def arrayOrUnspecified_def
        TestNullableValidateExample_def)

theorem convert_completion_witness:
  "isDecoratedType TestNullableValidateExample
   \<and> internalCreateInstance 1 exampleEnv TestNullableValidateExample wrongType
        \<lparr>path_stack = [], issues = []\<rparr>
       = Return (JObj [(''foo'', JStr ''def'')], wrongTypeContext)
   \<and> convert 1 exampleEnv TestNullableValidateExample wrongType
        (Some (\<lambda>r c w. (r, c) # w)) []
       = Return (JObj [(''foo'', JStr ''def'')],
                 [(JObj [(''foo'', JStr ''def'')], wrongTypeContext)])
   \<and> convert 1 exampleEnv TestNullableValidateExample wrongType None ()
       = Throw (ValidationError
           ''Validation failed with 1 errors: Expected type string, but found: number''
           wrongTypeContext) ()"
proof -
  note built = convert_completion [where depth = 1 and e = exampleEnv and data = wrongType
      and result = "JObj [(''foo'', JStr ''def'')]" and c = wrongTypeContext,
      THEN mp, OF isDecoratedType_TestNullableValidateExample, THEN conjunct2,
      THEN mp, OF wrongType_run]
  have a: "convert 1 exampleEnv TestNullableValidateExample wrongType
        (Some (\<lambda>r c w. (r, c) # w)) []
       = Return (JObj [(''foo'', JStr ''def'')],
                 [(JObj [(''foo'', JStr ''def'')], wrongTypeContext)])"
    using built [THEN conjunct1] .
  have b: "convert 1 exampleEnv TestNullableValidateExample wrongType None ()
       = Throw (ValidationError
           ''Validation failed with 1 errors: Expected type string, but found: number''
           wrongTypeContext) ()"
    using built [THEN conjunct2]
    by (simp add: wrongTypeContext_def showNum_digit digit_def)
  show ?thesis
    by (intro conjI isDecoratedType_TestNullableValidateExample wrongType_run a b)
qed

text \<open>
  Claim C1 as stated, for every input data, fails where the data holds a string in the
  place of an object: the lookup \<open>"make" in "Ford"\<close> throws, and \<open>convert\<close> with a callback
  neither calls it nor returns.
\<close>

theorem convert_type_error_counterexample:
  "isDecoratedType Garage
   \<and> convert 2 exampleEnv Garage (JObj [(''vehicles'', JArr [JStr ''Ford''])])
        (Some (\<lambda>r c w. (r, c) # w)) [] = Throw TypeError ()"
  by (simp add: engine_defs example_defs cong: obind_weak_cong)

text \<open>
  Claim C10 against the code. \<open>isDecoratedType\<close> does not depend on \<open>_parameters\<close>: it asks
  for the member \<open>_parmeters\<close>. A malformed \<open>_properties\<close> or \<open>_parmeters\<close> is rejected, a
  malformed \<open>_parameters\<close> is accepted, and \<open>convert\<close> then constructs an instance with no
  argument mapped instead of raising the structural error.
\<close>

theorem malformed_parameters_not_rejected:
  "isDecoratedType (ctor\<lparr>parameters := Malformed\<rparr>) = isDecoratedType ctor
   \<and> \<not> isDecoratedType (ctor\<lparr>properties := Malformed\<rparr>)
   \<and> \<not> isDecoratedType (ctor\<lparr>parmeters := Malformed\<rparr>)
   \<and> isDecoratedType (Vehicle\<lparr>parameters := Malformed\<rparr>)
   \<and> convert 1 exampleEnv (Vehicle\<lparr>parameters := Malformed\<rparr>)
        (JObj [(''make'', JStr ''Ford'')]) None ()
       = Return (JObj [(''year'', JNum 0), (''make'', JUndefined), (''model'', JUndefined)], ())"
proof -
  have "convert 1 exampleEnv (Vehicle\<lparr>parameters := Malformed\<rparr>)
        (JObj [(''make'', JStr ''Ford'')]) None ()
       = Return (JObj [(''year'', JNum 0), (''make'', JUndefined), (''model'', JUndefined)], ())"
    by (simp add: engine_defs example_defs cong: obind_weak_cong)
  moreover have "isDecoratedType (Vehicle\<lparr>parameters := Malformed\<rparr>)"
    by (simp add: isDecoratedType_def objectOrUnspecified_def arrayOrUnspecified_def Vehicle_def)
  ultimately show ?thesis
    by (simp add: isDecoratedType_def objectOrUnspecified_def arrayOrUnspecified_def)
qed

section \<open>Required fields and defaults\<close>

lemma resolveAliases_firstResolved:
  "resolveAliases rec e mapping as data c =
     obind (during c (firstResolved e as data)) (\<lambda>r.
       case r of None \<Rightarrow> Return (None, c)
               | Some (a, v) \<Rightarrow> processFound rec e mapping a v c)"
proof (induction as)
  case Nil
  show ?case by simp
next
  case (Cons a as)
  show ?case
  proof (cases "getProperty (inherited e) (toKey e) a data")
    case (Return fv)
    obtain found val where "fv = (found, val)" by (cases fv)
    with Return Cons.IH show ?thesis by simp
  qed simp_all
qed

lemma processFound_eq:
  "processFound rec e (Some m) a v c =
     (if validationFails m a v c then Return (None, pop (validated m a v c))
      else case mappedAs m of
             None \<Rightarrow> Return (Some (transformed m v), pop (validated m a v c))
           | Some cls \<Rightarrow>
               obind (handleRecursiveMapping rec (classes e cls) (isArray m)
                        (transformed m v) (validated m a v c))
                 (\<lambda>(val3, c3). Return (Some val3, pop c3)))"
  by (simp add: processFound_def validationFails_def validated_def preValue_def
        transformed_def Let_def split_def split: option.splits)

lemma processFound_None_iff:
  assumes "processFound rec e (Some m) a v c = Return (r, c1)"
  shows "(r = None) = validationFails m a v c"
  using assms unfolding processFound_eq
  by (auto split: if_splits option.splits dest!: obind_Return)

lemma resolveAliases_unmapped:
  assumes "resolveAliases rec e (Some m) as data c = Return (r, c1)"
  shows "(r = None) = unmapped e m as data c"
proof -
  from assms obtain fr where fr: "firstResolved e as data = Return fr"
    and k: "(case fr of None \<Rightarrow> Return (None, c)
                      | Some (a, v) \<Rightarrow> processFound rec e (Some m) a v c) = Return (r, c1)"
    unfolding resolveAliases_firstResolved by (auto dest!: obind_Return)
  show ?thesis
  proof (cases fr)
    case None
    with fr k show ?thesis by (simp add: unmapped_def)
  next
    case (Some av)
    obtain a v where av: "av = (a, v)" by (cases av)
    with Some k have "processFound rec e (Some m) a v c = Return (r, c1)" by simp
    from processFound_None_iff [OF this] fr Some av show ?thesis
      by (simp add: unmapped_def)
  qed
qed

lemma firstResolved_None_iff:
  "firstResolved e as data = Return None
     \<longleftrightarrow> (\<forall>a \<in> set as. \<exists>u. getProperty (inherited e) (toKey e) a data = Return (False, u))"
proof (induction as)
  case Nil
  show ?case by simp
next
  case (Cons a as)
  show ?case
  proof (cases "getProperty (inherited e) (toKey e) a data")
    case (Return fv)
    obtain found val where "fv = (found, val)" by (cases fv)
    with Return Cons.IH show ?thesis by auto
  qed simp_all
qed

lemma mapping_eqs:
  "aliasesOf (Some m) = aliases m" "requiredOf (Some m) = isRequired m"
  "defaultOf (Some m) = defaultValue m"
  by (simp_all add: aliasesOf_def requiredOf_def defaultOf_def)

lemma paramStep_result:
  assumes "paramStep rec e data (Some m) index (params, c) = Return (params', c')"
  shows "\<exists>r c1. resolveAliases rec e (Some m) (ifEmpty (aliases m) (SegNum index)) data c
                  = Return (r, c1)
      \<and> (r = None) = unmapped e m (ifEmpty (aliases m) (SegNum index)) data c
      \<and> c' = (if isRequired m \<and> r = None
               then c1\<lparr>issues := issues c1 @
                      [ValidationIssue (pathString (path_stack c1)) error
                         (''Required parameter not found: ''
                            @ joinWith '','' (map segText (ifEmpty (aliases m) (SegNum index))))]\<rparr>
               else c1)"
proof -
  from assms [unfolded paramStep_def mapping_eqs] obtain r c1 where
    ra: "resolveAliases rec e (Some m) (ifEmpty (aliases m) (SegNum index)) data c
           = Return (r, c1)"
    and k: "(case r of
               Some val \<Rightarrow> Return (setIndex params index val, c1)
             | None \<Rightarrow>
                 if isRequired m then
                   Return (params,
                     vcError c1 (''Required parameter not found: ''
                       @ joinWith '','' (map segText (ifEmpty (aliases m) (SegNum index)))))
                 else if truthy (defaultValue m) then
                   Return (setIndex params index (defaultValue m), c1)
                 else Return (params, c1))
              = (Return (params', c') :: (jsval list \<times> ValidationContext) run)"
    by (auto dest!: obind_Return)
  from k have "c' = (if isRequired m \<and> r = None
               then c1\<lparr>issues := issues c1 @
                      [ValidationIssue (pathString (path_stack c1)) error
                         (''Required parameter not found: ''
                            @ joinWith '','' (map segText (ifEmpty (aliases m) (SegNum index))))]\<rparr>
               else c1)"
    by (auto simp: vcError_def vcAddIssue_def split: option.splits if_splits)
  with ra resolveAliases_unmapped [OF ra] show ?thesis by blast
qed

lemma propStep_result:
  assumes "propStep rec e data (key, m) (result, c) = Return (result', c')"
  shows "\<exists>r c1. resolveAliases rec e (Some m) (ifEmpty (aliases m) (SegStr key)) data c
                  = Return (r, c1)
      \<and> (r = None) = unmapped e m (ifEmpty (aliases m) (SegStr key)) data c
      \<and> c' = (if isRequired m \<and> r = None
               then c1\<lparr>issues := issues c1 @
                      [ValidationIssue (pathString (path_stack c1)) error
                         (''Required property or field not found: '' @ key)]\<rparr>
               else c1)"
proof -
  from assms obtain r c1 where
    ra: "resolveAliases rec e (Some m) (ifEmpty (aliases m) (SegStr key)) data c
           = Return (r, c1)"
    and k: "(case r of
               Some val \<Rightarrow> Return (setProp result key val, c1)
             | None \<Rightarrow>
                 if isRequired m then
                   Return (result,
                     vcError c1 (''Required property or field not found: '' @ key))
                 else if truthy (defaultValue m) then
                   Return (setProp result key (defaultValue m), c1)
                 else Return (result, c1))
              = (Return (result', c') :: (jsobject \<times> ValidationContext) run)"
    by (auto simp: propStep_def dest!: obind_Return)
  from k have "c' = (if isRequired m \<and> r = None
               then c1\<lparr>issues := issues c1 @
                      [ValidationIssue (pathString (path_stack c1)) error
                         (''Required property or field not found: '' @ key)]\<rparr>
               else c1)"
    by (auto simp: vcError_def vcAddIssue_def split: option.splits if_splits)
  with ra resolveAliases_unmapped [OF ra] show ?thesis by blast
qed

text \<open>A round of either loop, by what the alias loop finds.\<close>

lemma paramStep_resolved:
  assumes "firstResolved e (ifEmpty (aliases m) (SegNum index)) data = Return (Some (a, v))"
  shows "paramStep rec e data (Some m) index (params, c) =
     obind (processFound rec e (Some m) a v c)
       (\<lambda>(r, c1).
          case r of
            Some val \<Rightarrow> Return (setIndex params index val, c1)
          | None \<Rightarrow>
              if isRequired m then
                Return (params,
                  vcError c1 (''Required parameter not found: ''
                    @ joinWith '','' (map segText (ifEmpty (aliases m) (SegNum index)))))
              else if truthy (defaultValue m) then
                Return (setIndex params index (defaultValue m), c1)
              else Return (params, c1))"
  unfolding paramStep_def mapping_eqs resolveAliases_firstResolved
  using assms by simp

lemma propStep_resolved:
  assumes "firstResolved e (ifEmpty (aliases m) (SegStr key)) data = Return (Some (a, v))"
  shows "propStep rec e data (key, m) (result, c) =
     obind (processFound rec e (Some m) a v c)
       (\<lambda>(r, c1).
          case r of
            Some val \<Rightarrow> Return (setProp result key val, c1)
          | None \<Rightarrow>
              if isRequired m then
                Return (result,
                  vcError c1 (''Required property or field not found: '' @ key))
              else if truthy (defaultValue m) then
                Return (setProp result key (defaultValue m), c1)
              else Return (result, c1))"
  unfolding propStep_def resolveAliases_firstResolved
  using assms by simp

lemma paramStep_unresolved:
  "firstResolved e (ifEmpty (aliases m) (SegNum index)) data = Return None \<longrightarrow>
   paramStep rec e data (Some m) index (params, c) =
     Return (if isRequired m then
               (params,
                vcError c (''Required parameter not found: ''
                  @ joinWith '','' (map segText (ifEmpty (aliases m) (SegNum index)))))
             else if truthy (defaultValue m) then (setIndex params index (defaultValue m), c)
             else (params, c))"
  unfolding paramStep_def mapping_eqs resolveAliases_firstResolved
  by simp

lemma paramStep_failed:
  "firstResolved e (ifEmpty (aliases m) (SegNum index)) data = Return (Some (a, v))
     \<and> validationFails m a v c \<longrightarrow>
   paramStep rec e data (Some m) index (params, c) =
     Return (if isRequired m then
               (params,
                vcError (pop (validated m a v c)) (''Required parameter not found: ''
                  @ joinWith '','' (map segText (ifEmpty (aliases m) (SegNum index)))))
             else if truthy (defaultValue m) then
               (setIndex params index (defaultValue m), pop (validated m a v c))
             else (params, pop (validated m a v c)))"
proof
  assume h: "firstResolved e (ifEmpty (aliases m) (SegNum index)) data = Return (Some (a, v))
     \<and> validationFails m a v c"
  then have f: "validationFails m a v c" by simp
  from h have r: "firstResolved e (ifEmpty (aliases m) (SegNum index)) data
                    = Return (Some (a, v))" by simp
  show "paramStep rec e data (Some m) index (params, c) =
     Return (if isRequired m then
               (params,
                vcError (pop (validated m a v c)) (''Required parameter not found: ''
                  @ joinWith '','' (map segText (ifEmpty (aliases m) (SegNum index)))))
             else if truthy (defaultValue m) then
               (setIndex params index (defaultValue m), pop (validated m a v c))
             else (params, pop (validated m a v c)))"
    unfolding paramStep_resolved [OF r] processFound_eq using f by simp
qed

lemma paramStep_plain:
  "firstResolved e (ifEmpty (aliases m) (SegNum index)) data = Return (Some (a, v))
     \<and> \<not> validationFails m a v c \<and> mappedAs m = None \<longrightarrow>
   paramStep rec e data (Some m) index (params, c) =
     Return (setIndex params index (transformed m v), pop (validated m a v c))"
proof
  assume h: "firstResolved e (ifEmpty (aliases m) (SegNum index)) data = Return (Some (a, v))
     \<and> \<not> validationFails m a v c \<and> mappedAs m = None"
  then have f: "\<not> validationFails m a v c" and n: "mappedAs m = None" by simp_all
  from h have r: "firstResolved e (ifEmpty (aliases m) (SegNum index)) data
                    = Return (Some (a, v))" by simp
  show "paramStep rec e data (Some m) index (params, c) =
     Return (setIndex params index (transformed m v), pop (validated m a v c))"
    unfolding paramStep_resolved [OF r] processFound_eq using f n by simp
qed

lemma paramStep_nested:
  "firstResolved e (ifEmpty (aliases m) (SegNum index)) data = Return (Some (a, v))
     \<and> \<not> validationFails m a v c \<and> mappedAs m = Some cls \<longrightarrow>
   paramStep rec e data (Some m) index (params, c) =
     obind (handleRecursiveMapping rec (classes e cls) (isArray m) (transformed m v)
              (validated m a v c))
       (\<lambda>(val3, c3). Return (setIndex params index val3, pop c3))"
proof
  assume h: "firstResolved e (ifEmpty (aliases m) (SegNum index)) data = Return (Some (a, v))
     \<and> \<not> validationFails m a v c \<and> mappedAs m = Some cls"
  then have f: "\<not> validationFails m a v c" and n: "mappedAs m = Some cls" by simp_all
  from h have r: "firstResolved e (ifEmpty (aliases m) (SegNum index)) data
                    = Return (Some (a, v))" by simp
  show "paramStep rec e data (Some m) index (params, c) =
     obind (handleRecursiveMapping rec (classes e cls) (isArray m) (transformed m v)
              (validated m a v c))
       (\<lambda>(val3, c3). Return (setIndex params index val3, pop c3))"
    unfolding paramStep_resolved [OF r] processFound_eq using f n
    by (cases "handleRecursiveMapping rec (classes e cls) (isArray m) (transformed m v)
                 (validated m a v c)") auto
qed

lemma propStep_unresolved:
  "firstResolved e (ifEmpty (aliases m) (SegStr key)) data = Return None \<longrightarrow>
   propStep rec e data (key, m) (result, c) =
     Return (if isRequired m then
               (result, vcError c (''Required property or field not found: '' @ key))
             else if truthy (defaultValue m) then (setProp result key (defaultValue m), c)
             else (result, c))"
  unfolding propStep_def resolveAliases_firstResolved
  by simp

lemma propStep_failed:
  "firstResolved e (ifEmpty (aliases m) (SegStr key)) data = Return (Some (a, v))
     \<and> validationFails m a v c \<longrightarrow>
   propStep rec e data (key, m) (result, c) =
     Return (if isRequired m then
               (result,
                vcError (pop (validated m a v c))
                  (''Required property or field not found: '' @ key))
             else if truthy (defaultValue m) then
               (setProp result key (defaultValue m), pop (validated m a v c))
             else (result, pop (validated m a v c)))"
proof
  assume h: "firstResolved e (ifEmpty (aliases m) (SegStr key)) data = Return (Some (a, v))
     \<and> validationFails m a v c"
  then have f: "validationFails m a v c" by simp
  from h have r: "firstResolved e (ifEmpty (aliases m) (SegStr key)) data
                    = Return (Some (a, v))" by simp
  show "propStep rec e data (key, m) (result, c) =
     Return (if isRequired m then
               (result,
                vcError (pop (validated m a v c))
                  (''Required property or field not found: '' @ key))
             else if truthy (defaultValue m) then
               (setProp result key (defaultValue m), pop (validated m a v c))
             else (result, pop (validated m a v c)))"
    unfolding propStep_resolved [OF r] processFound_eq using f by simp
qed

lemma propStep_plain:
  "firstResolved e (ifEmpty (aliases m) (SegStr key)) data = Return (Some (a, v))
     \<and> \<not> validationFails m a v c \<and> mappedAs m = None \<longrightarrow>
   propStep rec e data (key, m) (result, c) =
     Return (setProp result key (transformed m v), pop (validated m a v c))"
proof
  assume h: "firstResolved e (ifEmpty (aliases m) (SegStr key)) data = Return (Some (a, v))
     \<and> \<not> validationFails m a v c \<and> mappedAs m = None"
  then have f: "\<not> validationFails m a v c" and n: "mappedAs m = None" by simp_all
  from h have r: "firstResolved e (ifEmpty (aliases m) (SegStr key)) data
                    = Return (Some (a, v))" by simp
  show "propStep rec e data (key, m) (result, c) =
     Return (setProp result key (transformed m v), pop (validated m a v c))"
    unfolding propStep_resolved [OF r] processFound_eq using f n by simp
qed

lemma propStep_nested:
  "firstResolved e (ifEmpty (aliases m) (SegStr key)) data = Return (Some (a, v))
     \<and> \<not> validationFails m a v c \<and> mappedAs m = Some cls \<longrightarrow>
   propStep rec e data (key, m) (result, c) =
     obind (handleRecursiveMapping rec (classes e cls) (isArray m) (transformed m v)
              (validated m a v c))
       (\<lambda>(val3, c3). Return (setProp result key val3, pop c3))"
proof
  assume h: "firstResolved e (ifEmpty (aliases m) (SegStr key)) data = Return (Some (a, v))
     \<and> \<not> validationFails m a v c \<and> mappedAs m = Some cls"
  then have f: "\<not> validationFails m a v c" and n: "mappedAs m = Some cls" by simp_all
  from h have r: "firstResolved e (ifEmpty (aliases m) (SegStr key)) data
                    = Return (Some (a, v))" by simp
  show "propStep rec e data (key, m) (result, c) =
     obind (handleRecursiveMapping rec (classes e cls) (isArray m) (transformed m v)
              (validated m a v c))
       (\<lambda>(val3, c3). Return (setProp result key val3, pop c3))"
    unfolding propStep_resolved [OF r] processFound_eq using f n
    by (cases "handleRecursiveMapping rec (classes e cls) (isArray m) (transformed m v)
                 (validated m a v c)") auto
qed

text \<open>
  Claim C4, as amended. Whether an alias resolves is decided by \<open>getProperty\<close>, that is by
  the operator \<open>in\<close>, which sees inherited members too: no alias resolves exactly when
  \<open>getProperty\<close> finds nothing under each of them. When a round of the parameter loop
  (resp. of the property loop) returns, its diagnostics are those of the alias loop plus
  exactly one error issue \<open>Required parameter not found: <aliases-or-index>\<close> (resp.
  \<open>Required property or field not found: <name>\<close>) if the mapping is required and
  unmapped, and nothing more otherwise. The mapping is unmapped when none of its aliases
  resolved, and also when the first alias that resolved carried a value whose validations
  produced an error-level issue. For a required mapping none of whose aliases resolves,
  the round returns with the slot (resp. the property) untouched and that one issue added
  under the current path.
\<close>

theorem required_diagnostic:
  "(paramStep rec e data (Some m) index (params, c) = Return (params', c') \<longrightarrow>
      (\<exists>r c1. resolveAliases rec e (Some m) (ifEmpty (aliases m) (SegNum index)) data c
                 = Return (r, c1)
          \<and> c' = (if isRequired m \<and> unmapped e m (ifEmpty (aliases m) (SegNum index)) data c
                   then c1\<lparr>issues := issues c1 @
                        [ValidationIssue (pathString (path_stack c1)) error
                           (''Required parameter not found: ''
                              @ joinWith '','' (map segText (ifEmpty (aliases m) (SegNum index))))]\<rparr>
                   else c1)))
   \<and> (propStep rec e data (key, m) (result, c) = Return (result', c') \<longrightarrow>
      (\<exists>r c1. resolveAliases rec e (Some m) (ifEmpty (aliases m) (SegStr key)) data c
                 = Return (r, c1)
          \<and> c' = (if isRequired m \<and> unmapped e m (ifEmpty (aliases m) (SegStr key)) data c
                   then c1\<lparr>issues := issues c1 @
                        [ValidationIssue (pathString (path_stack c1)) error
                           (''Required property or field not found: '' @ key)]\<rparr>
                   else c1)))
   \<and> (isRequired m
        \<and> firstResolved e (ifEmpty (aliases m) (SegNum index)) data = Return None \<longrightarrow>
      paramStep rec e data (Some m) index (params, c) =
        Return (params,
          c\<lparr>issues := issues c @
               [ValidationIssue (pathString (path_stack c)) error
                  (''Required parameter not found: ''
                     @ joinWith '','' (map segText (ifEmpty (aliases m) (SegNum index))))]\<rparr>))
   \<and> (isRequired m
        \<and> firstResolved e (ifEmpty (aliases m) (SegStr key)) data = Return None \<longrightarrow>
      propStep rec e data (key, m) (result, c) =
        Return (result,
          c\<lparr>issues := issues c @
               [ValidationIssue (pathString (path_stack c)) error
                  (''Required property or field not found: '' @ key)]\<rparr>))
   \<and> (firstResolved e as data = Return None
        \<longleftrightarrow> (\<forall>a \<in> set as. \<exists>u.
               getProperty (inherited e) (toKey e) a data = Return (False, u)))"
proof (intro conjI impI)
  assume "paramStep rec e data (Some m) index (params, c) = Return (params', c')"
  from paramStep_result [OF this] obtain r c1 where
    ra: "resolveAliases rec e (Some m) (ifEmpty (aliases m) (SegNum index)) data c
           = Return (r, c1)"
    and un: "(r = None) = unmapped e m (ifEmpty (aliases m) (SegNum index)) data c"
    and ceq: "c' = (if isRequired m \<and> r = None
                   then c1\<lparr>issues := issues c1 @
                        [ValidationIssue (pathString (path_stack c1)) error
                           (''Required parameter not found: ''
                              @ joinWith '','' (map segText (ifEmpty (aliases m) (SegNum index))))]\<rparr>
                   else c1)"
    by blast
  from ceq un have "c' = (if isRequired m \<and> unmapped e m (ifEmpty (aliases m) (SegNum index)) data c
                   then c1\<lparr>issues := issues c1 @
                        [ValidationIssue (pathString (path_stack c1)) error
                           (''Required parameter not found: ''
                              @ joinWith '','' (map segText (ifEmpty (aliases m) (SegNum index))))]\<rparr>
                   else c1)"
    by simp
  with ra
  show "\<exists>r c1. resolveAliases rec e (Some m) (ifEmpty (aliases m) (SegNum index)) data c
                 = Return (r, c1)
          \<and> c' = (if isRequired m \<and> unmapped e m (ifEmpty (aliases m) (SegNum index)) data c
                   then c1\<lparr>issues := issues c1 @
                        [ValidationIssue (pathString (path_stack c1)) error
                           (''Required parameter not found: ''
                              @ joinWith '','' (map segText (ifEmpty (aliases m) (SegNum index))))]\<rparr>
                   else c1)"
    by blast
next
  assume "propStep rec e data (key, m) (result, c) = Return (result', c')"
  from propStep_result [OF this] obtain r c1 where
    ra: "resolveAliases rec e (Some m) (ifEmpty (aliases m) (SegStr key)) data c
           = Return (r, c1)"
    and un: "(r = None) = unmapped e m (ifEmpty (aliases m) (SegStr key)) data c"
    and ceq: "c' = (if isRequired m \<and> r = None
                   then c1\<lparr>issues := issues c1 @
                        [ValidationIssue (pathString (path_stack c1)) error
                           (''Required property or field not found: '' @ key)]\<rparr>
                   else c1)"
    by blast
  from ceq un have "c' = (if isRequired m \<and> unmapped e m (ifEmpty (aliases m) (SegStr key)) data c
                   then c1\<lparr>issues := issues c1 @
                        [ValidationIssue (pathString (path_stack c1)) error
                           (''Required property or field not found: '' @ key)]\<rparr>
                   else c1)"
    by simp
  with ra
  show "\<exists>r c1. resolveAliases rec e (Some m) (ifEmpty (aliases m) (SegStr key)) data c
                 = Return (r, c1)
          \<and> c' = (if isRequired m \<and> unmapped e m (ifEmpty (aliases m) (SegStr key)) data c
                   then c1\<lparr>issues := issues c1 @
                        [ValidationIssue (pathString (path_stack c1)) error
                           (''Required property or field not found: '' @ key)]\<rparr>
                   else c1)"
    by blast
next
  assume h: "isRequired m
        \<and> firstResolved e (ifEmpty (aliases m) (SegNum index)) data = Return None"
  then have "firstResolved e (ifEmpty (aliases m) (SegNum index)) data = Return None"
    by simp
  from paramStep_unresolved [THEN mp, OF this, of rec params c] h
  show "paramStep rec e data (Some m) index (params, c) =
        Return (params,
          c\<lparr>issues := issues c @
               [ValidationIssue (pathString (path_stack c)) error
                  (''Required parameter not found: ''
                     @ joinWith '','' (map segText (ifEmpty (aliases m) (SegNum index))))]\<rparr>)"
    by (simp add: vcError_def vcAddIssue_def)
next
  assume h: "isRequired m
        \<and> firstResolved e (ifEmpty (aliases m) (SegStr key)) data = Return None"
  then have "firstResolved e (ifEmpty (aliases m) (SegStr key)) data = Return None"
    by simp
  from propStep_unresolved [THEN mp, OF this, of rec result c] h
  show "propStep rec e data (key, m) (result, c) =
        Return (result,
          c\<lparr>issues := issues c @
               [ValidationIssue (pathString (path_stack c)) error
                  (''Required property or field not found: '' @ key)]\<rparr>)"
    by (simp add: vcError_def vcAddIssue_def)
next
  show "firstResolved e as data = Return None
        \<longleftrightarrow> (\<forall>a \<in> set as. \<exists>u.
               getProperty (inherited e) (toKey e) a data = Return (False, u))"
    by (rule firstResolved_None_iff)
qed

text \<open>
  Claim C3, as amended. A round of the parameter loop (resp. of the property loop), by
  what the alias loop finds. (1) No alias resolves: a required mapping gets its issue;
  otherwise a truthy \<open>defaultValue\<close> is stored in the slot (resp. the property), and a
  falsy one leaves it as it was. (2) The first alias that resolves carries a value whose
  validations produce an error-level issue: neither \<open>transform\<close> nor the nested mapping is
  applied (the round returns without them; the context is the one after the validations,
  popped), and the slot is treated as in (1), so it does receive a truthy default. (3) The
  value passes and the mapping has no nested type: the transformed value is stored, also
  when it is \<open>null\<close>, and the default is not looked at. (4) The value passes and the
  mapping has a nested type: the round is the nested mapping of the transformed value in
  the context after the validations, and its result is stored.
\<close>

theorem default_application:
  "(firstResolved e (ifEmpty (aliases m) (SegNum index)) data = Return None \<longrightarrow>
    paramStep rec e data (Some m) index (params, c) =
      Return (if isRequired m then
                (params,
                 vcError c (''Required parameter not found: ''
                   @ joinWith '','' (map segText (ifEmpty (aliases m) (SegNum index)))))
              else if truthy (defaultValue m) then (setIndex params index (defaultValue m), c)
              else (params, c)))
   \<and> (firstResolved e (ifEmpty (aliases m) (SegNum index)) data = Return (Some (a, v))
        \<and> validationFails m a v c \<longrightarrow>
      paramStep rec e data (Some m) index (params, c) =
        Return (if isRequired m then
                  (params,
                   vcError (pop (validated m a v c)) (''Required parameter not found: ''
                     @ joinWith '','' (map segText (ifEmpty (aliases m) (SegNum index)))))
                else if truthy (defaultValue m) then
                  (setIndex params index (defaultValue m), pop (validated m a v c))
                else (params, pop (validated m a v c))))
   \<and> (firstResolved e (ifEmpty (aliases m) (SegNum index)) data = Return (Some (a, v))
        \<and> \<not> validationFails m a v c \<and> mappedAs m = None \<longrightarrow>
      paramStep rec e data (Some m) index (params, c) =
        Return (setIndex params index (transformed m v), pop (validated m a v c)))
   \<and> (firstResolved e (ifEmpty (aliases m) (SegNum index)) data = Return (Some (a, v))
        \<and> \<not> validationFails m a v c \<and> mappedAs m = Some cls \<longrightarrow>
      paramStep rec e data (Some m) index (params, c) =
        obind (handleRecursiveMapping rec (classes e cls) (isArray m) (transformed m v)
                 (validated m a v c))
          (\<lambda>(val3, c3). Return (setIndex params index val3, pop c3)))
   \<and> (firstResolved e (ifEmpty (aliases m) (SegStr key)) data = Return None \<longrightarrow>
      propStep rec e data (key, m) (result, c) =
        Return (if isRequired m then
                  (result, vcError c (''Required property or field not found: '' @ key))
                else if truthy (defaultValue m) then (setProp result key (defaultValue m), c)
                else (result, c)))
   \<and> (firstResolved e (ifEmpty (aliases m) (SegStr key)) data = Return (Some (a, v))
        \<and> validationFails m a v c \<longrightarrow>
      propStep rec e data (key, m) (result, c) =
        Return (if isRequired m then
                  (result,
                   vcError (pop (validated m a v c))
                     (''Required property or field not found: '' @ key))
                else if truthy (defaultValue m) then
                  (setProp result key (defaultValue m), pop (validated m a v c))
                else (result, pop (validated m a v c))))
   \<and> (firstResolved e (ifEmpty (aliases m) (SegStr key)) data = Return (Some (a, v))
        \<and> \<not> validationFails m a v c \<and> mappedAs m = None \<longrightarrow>
      propStep rec e data (key, m) (result, c) =
        Return (setProp result key (transformed m v), pop (validated m a v c)))
   \<and> (firstResolved e (ifEmpty (aliases m) (SegStr key)) data = Return (Some (a, v))
        \<and> \<not> validationFails m a v c \<and> mappedAs m = Some cls \<longrightarrow>
      propStep rec e data (key, m) (result, c) =
        obind (handleRecursiveMapping rec (classes e cls) (isArray m) (transformed m v)
                 (validated m a v c))
          (\<lambda>(val3, c3). Return (setProp result key val3, pop c3)))
   \<and> (firstResolved e as data = Return None
        \<longleftrightarrow> (\<forall>a \<in> set as. \<exists>u.
               getProperty (inherited e) (toKey e) a data = Return (False, u)))"
  by (intro conjI paramStep_unresolved paramStep_failed paramStep_plain paramStep_nested
        propStep_unresolved propStep_failed propStep_plain propStep_nested
        firstResolved_None_iff)

lemmas data_defs = noMake_def badMake_def badModel_def yearData_def nullFoo_def missingMake_def
  constructorParameter_def vehicleParameter_def vehiclesProperty_def fordVehicle_def
  badModelContext_def defaultedModel_def validationFails_def validated_def preValue_def
  transformed_def

lemma noMake_step:
  "paramStep (internalCreateInstance 0 exampleEnv) exampleEnv noMake (Some makeParameter) 0
     ([], emptyContext) = Return ([], missingMake)"
  by (simp add: engine_defs example_defs data_defs cong: obind_weak_cong)

lemma year_step:
  "propStep (internalCreateInstance 0 exampleEnv) exampleEnv yearData
     (''year'', makeMappingMetadata) ([(''year'', JNum 0)], emptyContext)
   = Return ([(''year'', JNum 1969)], emptyContext)"
  by (simp add: engine_defs example_defs data_defs cong: obind_weak_cong)

lemma required_makeParameter: "isRequired makeParameter"
  by (simp add: makeParameter_def makeMappingMetadata_def)

lemma yearData_unresolved:
  "firstResolved exampleEnv (ifEmpty (aliases makeParameter) (SegNum 0)) yearData = Return None"
  by (simp add: engine_defs example_defs data_defs cong: obind_weak_cong)

lemma noMake_unresolved:
  "firstResolved exampleEnv (ifEmpty (aliases makeParameter) (SegStr ''make'')) noMake
     = Return None"
  by (simp add: engine_defs example_defs data_defs cong: obind_weak_cong)

lemma constructor_found:
  "getProperty (inherited exampleEnv) (toKey exampleEnv) (SegStr ''constructor'') (JObj [])
     = Return (True, JFunction ''Object'' 1)"
  by (simp add: engine_defs example_defs data_defs cong: obind_weak_cong)

lemma constructor_step:
  "paramStep (internalCreateInstance 0 exampleEnv) exampleEnv (JObj [])
     (Some constructorParameter) 0 ([], emptyContext)
   = Return ([JFunction ''Object'' 1], emptyContext)"
  by (simp add: engine_defs example_defs data_defs cong: obind_weak_cong)

lemma constructor_mapped:
  "\<not> unmapped exampleEnv constructorParameter
        (ifEmpty (aliases constructorParameter) (SegNum 0)) (JObj []) emptyContext"
  by (simp add: unmapped_def engine_defs example_defs data_defs cong: obind_weak_cong)

theorem required_diagnostic_witness:
  "paramStep (internalCreateInstance 0 exampleEnv) exampleEnv noMake (Some makeParameter) 0
     ([], emptyContext) = Return ([], missingMake)
   \<and> (\<exists>r c1. resolveAliases (internalCreateInstance 0 exampleEnv) exampleEnv (Some makeParameter)
                 (ifEmpty (aliases makeParameter) (SegNum 0)) noMake emptyContext = Return (r, c1)
          \<and> missingMake =
              (if isRequired makeParameter
                  \<and> unmapped exampleEnv makeParameter
                       (ifEmpty (aliases makeParameter) (SegNum 0)) noMake emptyContext
               then c1\<lparr>issues := issues c1 @
                        [ValidationIssue (pathString (path_stack c1)) error
                           (''Required parameter not found: ''
                              @ joinWith '',''
                                  (map segText (ifEmpty (aliases makeParameter) (SegNum 0))))]\<rparr>
               else c1))
   \<and> propStep (internalCreateInstance 0 exampleEnv) exampleEnv yearData
        (''year'', makeMappingMetadata) ([(''year'', JNum 0)], emptyContext)
       = Return ([(''year'', JNum 1969)], emptyContext)
   \<and> (\<exists>r c1. resolveAliases (internalCreateInstance 0 exampleEnv) exampleEnv
                 (Some makeMappingMetadata)
                 (ifEmpty (aliases makeMappingMetadata) (SegStr ''year'')) yearData emptyContext
                 = Return (r, c1)
          \<and> emptyContext =
              (if isRequired makeMappingMetadata
                  \<and> unmapped exampleEnv makeMappingMetadata
                       (ifEmpty (aliases makeMappingMetadata) (SegStr ''year'')) yearData
                       emptyContext
               then c1\<lparr>issues := issues c1 @
                        [ValidationIssue (pathString (path_stack c1)) error
                           (''Required property or field not found: '' @ ''year'')]\<rparr>
               else c1))
   \<and> isRequired makeParameter
   \<and> firstResolved exampleEnv (ifEmpty (aliases makeParameter) (SegNum 0)) yearData
       = Return None
   \<and> paramStep (internalCreateInstance 0 exampleEnv) exampleEnv yearData (Some makeParameter) 0
        ([], emptyContext) = Return ([], missingMake)
   \<and> firstResolved exampleEnv (ifEmpty (aliases makeParameter) (SegStr ''make'')) noMake
       = Return None
   \<and> propStep (internalCreateInstance 0 exampleEnv) exampleEnv noMake (''make'', makeParameter)
        ([(''make'', JStr ''none'')], emptyContext)
       = Return ([(''make'', JStr ''none'')],
           \<lparr>path_stack = [],
            issues = [ValidationIssue [] error ''Required property or field not found: make'']\<rparr>)
   \<and> getProperty (inherited exampleEnv) (toKey exampleEnv) (SegStr ''constructor'') (JObj [])
       = Return (True, JFunction ''Object'' 1)
   \<and> paramStep (internalCreateInstance 0 exampleEnv) exampleEnv (JObj [])
        (Some constructorParameter) 0 ([], emptyContext)
       = Return ([JFunction ''Object'' 1], emptyContext)
   \<and> \<not> unmapped exampleEnv constructorParameter
          (ifEmpty (aliases constructorParameter) (SegNum 0)) (JObj []) emptyContext
   \<and> (\<exists>r c1. resolveAliases (internalCreateInstance 0 exampleEnv) exampleEnv
                 (Some constructorParameter)
                 (ifEmpty (aliases constructorParameter) (SegNum 0)) (JObj []) emptyContext
                 = Return (r, c1)
          \<and> emptyContext =
              (if isRequired constructorParameter
                  \<and> unmapped exampleEnv constructorParameter
                       (ifEmpty (aliases constructorParameter) (SegNum 0)) (JObj [])
                       emptyContext
               then c1\<lparr>issues := issues c1 @
                        [ValidationIssue (pathString (path_stack c1)) error
                           (''Required parameter not found: ''
                              @ joinWith '',''
                                  (map segText
                                     (ifEmpty (aliases constructorParameter) (SegNum 0))))]\<rparr>
               else c1))"
proof -
  from required_diagnostic [where m = makeParameter and e = exampleEnv and data = yearData
      and index = 0 and rec = "internalCreateInstance 0 exampleEnv" and params = "[]"
      and c = emptyContext,
      THEN conjunct2, THEN conjunct2, THEN conjunct1, THEN mp,
      OF conjI [OF required_makeParameter yearData_unresolved]]
  have p: "paramStep (internalCreateInstance 0 exampleEnv) exampleEnv yearData
        (Some makeParameter) 0 ([], emptyContext) = Return ([], missingMake)"
    by (simp add: missingMake_def emptyContext_def pathString_def makeParameter_def
          makeMappingMetadata_def ifEmpty_def)
  from required_diagnostic [where m = makeParameter and e = exampleEnv and data = noMake
      and key = "''make''" and rec = "internalCreateInstance 0 exampleEnv"
      and result = "[(''make'', JStr ''none'')]" and c = emptyContext,
      THEN conjunct2, THEN conjunct2, THEN conjunct2, THEN conjunct1, THEN mp,
      OF conjI [OF required_makeParameter noMake_unresolved]]
  have q: "propStep (internalCreateInstance 0 exampleEnv) exampleEnv noMake
        (''make'', makeParameter) ([(''make'', JStr ''none'')], emptyContext)
       = Return ([(''make'', JStr ''none'')],
           \<lparr>path_stack = [],
            issues = [ValidationIssue [] error ''Required property or field not found: make'']\<rparr>)"
    by (simp add: emptyContext_def pathString_def)
  show ?thesis
    by (intro conjI noMake_step year_step required_makeParameter yearData_unresolved p
        noMake_unresolved q constructor_found constructor_step constructor_mapped
        required_diagnostic [THEN conjunct1, THEN mp, OF noMake_step]
        required_diagnostic [THEN conjunct2, THEN conjunct1, THEN mp, OF year_step]
        required_diagnostic [THEN conjunct1, THEN mp, OF constructor_step])
qed

text \<open>
  Claim C4 as stated fails on a required parameter whose alias \<open>make\<close> resolves to a number:
  the alias resolved, and the diagnostic is emitted all the same.
\<close>

theorem required_diagnostic_counterexample:
  "isRequired makeParameter
   \<and> getProperty (inherited exampleEnv) (toKey exampleEnv) (SegStr ''make'') badMake
       = Return (True, JNum 42)
   \<and> paramStep (internalCreateInstance 0 exampleEnv) exampleEnv badMake (Some makeParameter) 0
        ([], emptyContext)
       = Return ([],
           \<lparr>path_stack = [],
            issues =
              [ValidationIssue ''make'' error ''Expected type string, but found: number'',
               ValidationIssue [] error
                 ''Required parameter not found: make,manufacturer'']\<rparr>)"
  by (simp add: engine_defs example_defs data_defs cong: obind_weak_cong)

lemma model_unresolved:
  "firstResolved exampleEnv (ifEmpty (aliases modelParameter) (SegNum 1)) badMake = Return None"
  by (simp add: engine_defs example_defs data_defs cong: obind_weak_cong)

lemma model_resolved:
  "firstResolved exampleEnv (ifEmpty (aliases modelParameter) (SegNum 1)) badModel
     = Return (Some (SegStr ''model'', JNum 7))"
  by (simp add: engine_defs example_defs data_defs cong: obind_weak_cong)

lemma model_fails: "validationFails modelParameter (SegStr ''model'') (JNum 7) emptyContext"
  by (simp add: engine_defs example_defs data_defs cong: obind_weak_cong)

lemma make_resolved:
  "firstResolved exampleEnv (ifEmpty (aliases makeParameter) (SegNum 0))
     (JObj [(''manufacturer'', JStr ''Ford'')])
     = Return (Some (SegStr ''manufacturer'', JStr ''Ford''))"
  by (simp add: engine_defs example_defs data_defs cong: obind_weak_cong)

lemma make_passes:
  "\<not> validationFails makeParameter (SegStr ''manufacturer'') (JStr ''Ford'') emptyContext"
  by (simp add: engine_defs example_defs data_defs cong: obind_weak_cong)

lemma make_plain: "mappedAs makeParameter = None"
  by (simp add: makeParameter_def makeMappingMetadata_def)

lemma vehicle_resolved:
  "firstResolved exampleEnv (ifEmpty (aliases vehicleParameter) (SegNum 0))
     (JArr [JObj [(''make'', JStr ''Ford'')]])
     = Return (Some (SegNum 0, JObj [(''make'', JStr ''Ford'')]))"
  by (simp add: engine_defs example_defs data_defs cong: obind_weak_cong)

lemma vehicle_passes:
  "\<not> validationFails vehicleParameter (SegNum 0) (JObj [(''make'', JStr ''Ford'')]) emptyContext"
  by (simp add: engine_defs example_defs data_defs cong: obind_weak_cong)

lemma vehicle_nested: "mappedAs vehicleParameter = Some ''Vehicle''"
  by (simp add: vehicleParameter_def makeMappingMetadata_def)

lemma year_unresolved:
  "firstResolved exampleEnv (ifEmpty (aliases makeMappingMetadata) (SegStr ''year'')) noMake
     = Return None"
  by (simp add: engine_defs example_defs data_defs cong: obind_weak_cong)

lemma foo_resolved:
  "firstResolved exampleEnv (ifEmpty (aliases fooProperty) (SegStr ''foo'')) wrongType
     = Return (Some (SegStr ''foo'', JNum 42))"
  by (simp add: engine_defs example_defs data_defs cong: obind_weak_cong)

lemma foo_fails: "validationFails fooProperty (SegStr ''foo'') (JNum 42) emptyContext"
  by (simp add: engine_defs example_defs data_defs cong: obind_weak_cong)

lemma nullFoo_resolved:
  "firstResolved exampleEnv (ifEmpty (aliases fooProperty) (SegStr ''foo'')) nullFoo
     = Return (Some (SegStr ''foo'', JNull))"
  by (simp add: engine_defs example_defs data_defs cong: obind_weak_cong)

lemma nullFoo_passes: "\<not> validationFails fooProperty (SegStr ''foo'') JNull emptyContext"
  by (simp add: engine_defs example_defs data_defs cong: obind_weak_cong)

lemma foo_plain: "mappedAs fooProperty = None"
  by (simp add: fooProperty_def makeMappingMetadata_def)

lemma vehicles_resolved:
  "firstResolved exampleEnv (ifEmpty (aliases vehiclesProperty) (SegStr ''vehicles''))
     (JObj [(''vehicles'', JArr [JObj [(''make'', JStr ''Ford'')]])])
     = Return (Some (SegStr ''vehicles'', JArr [JObj [(''make'', JStr ''Ford'')]]))"
  by (simp add: engine_defs example_defs data_defs cong: obind_weak_cong)

lemma vehicles_passes:
  "\<not> validationFails vehiclesProperty (SegStr ''vehicles'')
        (JArr [JObj [(''make'', JStr ''Ford'')]]) emptyContext"
  by (simp add: engine_defs example_defs data_defs cong: obind_weak_cong)

lemma vehicles_nested: "mappedAs vehiclesProperty = Some ''Vehicle''"
  by (simp add: vehiclesProperty_def makeMappingMetadata_def)

theorem default_application_witness:
  "firstResolved exampleEnv (ifEmpty (aliases modelParameter) (SegNum 1)) badMake = Return None
   \<and> paramStep (internalCreateInstance 0 exampleEnv) exampleEnv badMake (Some modelParameter) 1
        ([], emptyContext) = Return (defaultedModel, emptyContext)
   \<and> firstResolved exampleEnv (ifEmpty (aliases modelParameter) (SegNum 1)) badModel
       = Return (Some (SegStr ''model'', JNum 7))
   \<and> validationFails modelParameter (SegStr ''model'') (JNum 7) emptyContext
   \<and> paramStep (internalCreateInstance 0 exampleEnv) exampleEnv badModel (Some modelParameter) 1
        ([], emptyContext) = Return (defaultedModel, badModelContext)
   \<and> firstResolved exampleEnv (ifEmpty (aliases makeParameter) (SegNum 0))
        (JObj [(''manufacturer'', JStr ''Ford'')])
       = Return (Some (SegStr ''manufacturer'', JStr ''Ford''))
   \<and> \<not> validationFails makeParameter (SegStr ''manufacturer'') (JStr ''Ford'') emptyContext
   \<and> mappedAs makeParameter = None
   \<and> paramStep (internalCreateInstance 0 exampleEnv) exampleEnv
        (JObj [(''manufacturer'', JStr ''Ford'')]) (Some makeParameter) 0 ([], emptyContext)
       = Return ([JStr ''Ford''], emptyContext)
   \<and> firstResolved exampleEnv (ifEmpty (aliases vehicleParameter) (SegNum 0))
        (JArr [JObj [(''make'', JStr ''Ford'')]])
       = Return (Some (SegNum 0, JObj [(''make'', JStr ''Ford'')]))
   \<and> \<not> validationFails vehicleParameter (SegNum 0) (JObj [(''make'', JStr ''Ford'')])
          emptyContext
   \<and> mappedAs vehicleParameter = Some ''Vehicle''
   \<and> paramStep (internalCreateInstance 1 exampleEnv) exampleEnv
        (JArr [JObj [(''make'', JStr ''Ford'')]]) (Some vehicleParameter) 0 ([], emptyContext)
       = Return ([fordVehicle], emptyContext)
   \<and> firstResolved exampleEnv (ifEmpty (aliases makeMappingMetadata) (SegStr ''year'')) noMake
       = Return None
   \<and> propStep (internalCreateInstance 0 exampleEnv) exampleEnv noMake
        (''year'', makeMappingMetadata) ([(''year'', JNum 0)], emptyContext)
       = Return ([(''year'', JNum 0)], emptyContext)
   \<and> firstResolved exampleEnv (ifEmpty (aliases fooProperty) (SegStr ''foo'')) wrongType
       = Return (Some (SegStr ''foo'', JNum 42))
   \<and> validationFails fooProperty (SegStr ''foo'') (JNum 42) emptyContext
   \<and> propStep (internalCreateInstance 0 exampleEnv) exampleEnv wrongType (''foo'', fooProperty)
        ([(''foo'', JStr ''def'')], emptyContext)
       = Return ([(''foo'', JStr ''def'')], wrongTypeContext)
   \<and> firstResolved exampleEnv (ifEmpty (aliases fooProperty) (SegStr ''foo'')) nullFoo
       = Return (Some (SegStr ''foo'', JNull))
   \<and> \<not> validationFails fooProperty (SegStr ''foo'') JNull emptyContext
   \<and> mappedAs fooProperty = None
   \<and> propStep (internalCreateInstance 0 exampleEnv) exampleEnv nullFoo (''foo'', fooProperty)
        ([(''foo'', JStr ''def'')], emptyContext)
       = Return ([(''foo'', JNull)], emptyContext)
   \<and> firstResolved exampleEnv (ifEmpty (aliases vehiclesProperty) (SegStr ''vehicles''))
        (JObj [(''vehicles'', JArr [JObj [(''make'', JStr ''Ford'')]])])
       = Return (Some (SegStr ''vehicles'', JArr [JObj [(''make'', JStr ''Ford'')]]))
   \<and> \<not> validationFails vehiclesProperty (SegStr ''vehicles'')
          (JArr [JObj [(''make'', JStr ''Ford'')]]) emptyContext
   \<and> mappedAs vehiclesProperty = Some ''Vehicle''
   \<and> propStep (internalCreateInstance 1 exampleEnv) exampleEnv
        (JObj [(''vehicles'', JArr [JObj [(''make'', JStr ''Ford'')]])])
        (''vehicles'', vehiclesProperty) ([(''vehicles'', JArr [])], emptyContext)
       = Return ([(''vehicles'', JArr [fordVehicle])], emptyContext)"
proof -
  note ev = engine_defs example_defs data_defs
  from default_application [where rec = "internalCreateInstance 0 exampleEnv"
      and params = "[]" and c = emptyContext,
      THEN conjunct1, THEN mp, OF model_unresolved]
  have p1: "paramStep (internalCreateInstance 0 exampleEnv) exampleEnv badMake
        (Some modelParameter) 1 ([], emptyContext) = Return (defaultedModel, emptyContext)"
    by (simp add: ev)
  from default_application [where rec = "internalCreateInstance 0 exampleEnv"
      and params = "[]" and c = emptyContext,
      THEN conjunct2, THEN conjunct1, THEN mp, OF conjI [OF model_resolved model_fails]]
  have p2: "paramStep (internalCreateInstance 0 exampleEnv) exampleEnv badModel
        (Some modelParameter) 1 ([], emptyContext) = Return (defaultedModel, badModelContext)"
    by (simp add: ev)
  from default_application [where rec = "internalCreateInstance 0 exampleEnv"
      and params = "[]" and c = emptyContext,
      THEN conjunct2, THEN conjunct2, THEN conjunct1, THEN mp,
      OF conjI [OF make_resolved conjI [OF make_passes make_plain]]]
  have p3: "paramStep (internalCreateInstance 0 exampleEnv) exampleEnv
        (JObj [(''manufacturer'', JStr ''Ford'')]) (Some makeParameter) 0 ([], emptyContext)
       = Return ([JStr ''Ford''], emptyContext)"
    by (simp add: ev)
  from default_application [where rec = "internalCreateInstance 1 exampleEnv"
      and params = "[]" and c = emptyContext,
      THEN conjunct2, THEN conjunct2, THEN conjunct2, THEN conjunct1, THEN mp,
      OF conjI [OF vehicle_resolved conjI [OF vehicle_passes vehicle_nested]]]
  have p4: "paramStep (internalCreateInstance 1 exampleEnv) exampleEnv
        (JArr [JObj [(''make'', JStr ''Ford'')]]) (Some vehicleParameter) 0 ([], emptyContext)
       = Return ([fordVehicle], emptyContext)"
    by (simp add: ev cong: obind_weak_cong)
  from default_application [where rec = "internalCreateInstance 0 exampleEnv"
      and result = "[(''year'', JNum 0)]" and c = emptyContext,
      THEN conjunct2, THEN conjunct2, THEN conjunct2, THEN conjunct2, THEN conjunct1,
      THEN mp, OF year_unresolved]
  have q1: "propStep (internalCreateInstance 0 exampleEnv) exampleEnv noMake
        (''year'', makeMappingMetadata) ([(''year'', JNum 0)], emptyContext)
       = Return ([(''year'', JNum 0)], emptyContext)"
    by (simp add: ev)
  from default_application [where rec = "internalCreateInstance 0 exampleEnv"
      and result = "[(''foo'', JStr ''def'')]" and c = emptyContext,
      THEN conjunct2, THEN conjunct2, THEN conjunct2, THEN conjunct2, THEN conjunct2,
      THEN conjunct1, THEN mp, OF conjI [OF foo_resolved foo_fails]]
  have q2: "propStep (internalCreateInstance 0 exampleEnv) exampleEnv wrongType
        (''foo'', fooProperty) ([(''foo'', JStr ''def'')], emptyContext)
       = Return ([(''foo'', JStr ''def'')], wrongTypeContext)"
    by (simp add: ev)
  from default_application [where rec = "internalCreateInstance 0 exampleEnv"
      and result = "[(''foo'', JStr ''def'')]" and c = emptyContext,
      THEN conjunct2, THEN conjunct2, THEN conjunct2, THEN conjunct2, THEN conjunct2,
      THEN conjunct2, THEN conjunct1, THEN mp,
      OF conjI [OF nullFoo_resolved conjI [OF nullFoo_passes foo_plain]]]
  have q3: "propStep (internalCreateInstance 0 exampleEnv) exampleEnv nullFoo
        (''foo'', fooProperty) ([(''foo'', JStr ''def'')], emptyContext)
       = Return ([(''foo'', JNull)], emptyContext)"
    by (simp add: ev)
  from default_application [where rec = "internalCreateInstance 1 exampleEnv"
      and result = "[(''vehicles'', JArr [])]" and c = emptyContext,
      THEN conjunct2, THEN conjunct2, THEN conjunct2, THEN conjunct2, THEN conjunct2,
      THEN conjunct2, THEN conjunct2, THEN conjunct1, THEN mp,
      OF conjI [OF vehicles_resolved conjI [OF vehicles_passes vehicles_nested]]]
  have q4: "propStep (internalCreateInstance 1 exampleEnv) exampleEnv
        (JObj [(''vehicles'', JArr [JObj [(''make'', JStr ''Ford'')]])])
        (''vehicles'', vehiclesProperty) ([(''vehicles'', JArr [])], emptyContext)
       = Return ([(''vehicles'', JArr [fordVehicle])], emptyContext)"
    by (simp add: ev cong: obind_weak_cong)
  show ?thesis
    by (intro conjI model_unresolved p1 model_resolved model_fails p2 make_resolved
        make_passes make_plain p3 vehicle_resolved vehicle_passes vehicle_nested p4
        year_unresolved q1 foo_resolved foo_fails q2 nullFoo_resolved nullFoo_passes
        foo_plain q3 vehicles_resolved vehicles_passes vehicles_nested q4)
qed

text \<open>
  Claim C3 as stated fails on a parameter with a default whose alias \<open>model\<close> resolves to a
  number: the value fails its validation and the slot receives the default.
\<close>

theorem default_application_counterexample:
  "getProperty (inherited exampleEnv) (toKey exampleEnv) (SegStr ''model'') badModel
     = Return (True, JNum 7)
   \<and> defaultValue modelParameter = JStr ''UNKNOWN''
   \<and> paramStep (internalCreateInstance 0 exampleEnv) exampleEnv badModel (Some modelParameter) 1
        ([], emptyContext)
       = Return ([JUndefined, JStr ''UNKNOWN''],
           \<lparr>path_stack = [],
            issues =
              [ValidationIssue ''model'' error ''Expected type string, but found: number'']\<rparr>)"
  by (simp add: engine_defs example_defs data_defs cong: obind_weak_cong)

section \<open>Nullable chains\<close>

lemma nullableIsString_null:
  "nullish v \<Longrightarrow> validateValue [invoke (nullableIsString nullable)] v c = (None, c)"
  by (simp add: validateValue_def nullableIsString_def makeValidatorChain_def)

lemma nullableIsString_wrong:
  "\<not> nullish v \<Longrightarrow> typeof v \<noteq> ''string'' \<Longrightarrow>
   validateValue [invoke (nullableIsString nullable)] v c =
     (Some error,
      c\<lparr>issues := issues c @
          [ValidationIssue (pathString (path_stack c)) error
             (''Expected type string, but found: '' @ typeof v)]\<rparr>)"
  by (simp add: validateValue_def nullableIsString_def makeValidatorChain_def isStringCheck_def
        track_def vcAddIssue_def)

lemma nullable_processFound:
  assumes m: "validations m = [invoke (nullableIsString nullable)]"
    "preValidationTransform m = None" "transform m = None" "mappedAs m = None"
  shows "nullish v \<Longrightarrow> processFound rec e (Some m) a v c = Return (Some v, c)"
    and "\<not> nullish v \<Longrightarrow> typeof v \<noteq> ''string'' \<Longrightarrow>
         processFound rec e (Some m) a v c =
           Return (None,
             c\<lparr>issues := issues c @
                 [ValidationIssue (pathString (path_stack c @ [a])) error
                    (''Expected type string, but found: '' @ typeof v)]\<rparr>)"
proof -
  assume "nullish v"
  then show "processFound rec e (Some m) a v c = Return (Some v, c)"
    by (simp add: processFound_def m nullableIsString_null)
next
  assume "\<not> nullish v" "typeof v \<noteq> ''string''"
  then show "processFound rec e (Some m) a v c =
           Return (None,
             c\<lparr>issues := issues c @
                 [ValidationIssue (pathString (path_stack c @ [a])) error
                    (''Expected type string, but found: '' @ typeof v)]\<rparr>)"
    by (simp add: processFound_def m nullableIsString_wrong push_def pop_def)
qed

text \<open>
  Claim C6, as amended. A chain built with \<open>ignoreNull\<close> does nothing to its context on
  \<open>null\<close> and \<open>undefined\<close>, whatever its stages are. For a property validated with
  \<open>nullable().isString()\<close> alone (no alias, not required, no transform, no nested type)
  whose name resolves to \<open>v\<close>: if \<open>v\<close> is null or undefined, no issue is added and \<open>v\<close>
  itself is assigned to the property; if \<open>v\<close> is neither null nor a string, exactly one
  error issue \<open>Expected type string, but found: <actual type>\<close> is added under the
  property's path, and the property keeps its value unless a truthy \<open>defaultValue\<close> is
  declared.
\<close>

theorem nullable_string_field:
  "(nullish v \<longrightarrow>
      invoke (makeValidatorChain fn True) v ctx = ctx
      \<and> invoke (refineValidatorChain chain next True) v ctx = ctx)
   \<and> (validations m = [invoke (nullableIsString nullable)]
        \<and> preValidationTransform m = None \<and> transform m = None \<and> mappedAs m = None
        \<and> aliases m = [] \<and> \<not> isRequired m
        \<and> getProperty (inherited e) (toKey e) (SegStr key) data = Return (True, v) \<longrightarrow>
      (nullish v \<longrightarrow>
         propStep rec e data (key, m) (result, c) = Return (setProp result key v, c))
      \<and> (\<not> nullish v \<and> typeof v \<noteq> ''string'' \<longrightarrow>
         propStep rec e data (key, m) (result, c) =
           Return (if truthy (defaultValue m) then setProp result key (defaultValue m)
                   else result,
             c\<lparr>issues := issues c @
                 [ValidationIssue (pathString (path_stack c @ [SegStr key])) error
                    (''Expected type string, but found: '' @ typeof v)]\<rparr>)))"
proof (intro conjI impI)
  assume "nullish v"
  then show "invoke (makeValidatorChain fn True) v ctx = ctx"
    by (simp add: makeValidatorChain_def)
next
  assume "nullish v"
  then show "invoke (refineValidatorChain chain next True) v ctx = ctx"
    by (simp add: refineValidatorChain_def)
next
  assume h: "validations m = [invoke (nullableIsString nullable)]
        \<and> preValidationTransform m = None \<and> transform m = None \<and> mappedAs m = None
        \<and> aliases m = [] \<and> \<not> isRequired m
        \<and> getProperty (inherited e) (toKey e) (SegStr key) data = Return (True, v)"
    and n: "nullish v"
  from h have m: "validations m = [invoke (nullableIsString nullable)]"
    "preValidationTransform m = None" "transform m = None" "mappedAs m = None" by simp_all
  from h show "propStep rec e data (key, m) (result, c) = Return (setProp result key v, c)"
    by (simp add: propStep_def ifEmpty_def nullable_processFound(1) [OF m n])
next
  assume h: "validations m = [invoke (nullableIsString nullable)]
        \<and> preValidationTransform m = None \<and> transform m = None \<and> mappedAs m = None
        \<and> aliases m = [] \<and> \<not> isRequired m
        \<and> getProperty (inherited e) (toKey e) (SegStr key) data = Return (True, v)"
    and n: "\<not> nullish v \<and> typeof v \<noteq> ''string''"
  from h have m: "validations m = [invoke (nullableIsString nullable)]"
    "preValidationTransform m = None" "transform m = None" "mappedAs m = None" by simp_all
  from n have n1: "\<not> nullish v" and n2: "typeof v \<noteq> ''string''" by simp_all
  from h show "propStep rec e data (key, m) (result, c) =
           Return (if truthy (defaultValue m) then setProp result key (defaultValue m)
                   else result,
             c\<lparr>issues := issues c @
                 [ValidationIssue (pathString (path_stack c @ [SegStr key])) error
                    (''Expected type string, but found: '' @ typeof v)]\<rparr>)"
    by (simp add: propStep_def ifEmpty_def nullable_processFound(2) [OF m n1 n2])
qed

lemma fooProperty_shape:
  "validations fooProperty = [invoke (nullableIsString nullable)]
   \<and> preValidationTransform fooProperty = None \<and> transform fooProperty = None
   \<and> mappedAs fooProperty = None \<and> aliases fooProperty = [] \<and> \<not> isRequired fooProperty"
  by (simp add: fooProperty_def makeMappingMetadata_def)

lemma nullFoo_found:
  "getProperty (inherited exampleEnv) (toKey exampleEnv) (SegStr ''foo'') nullFoo = Return (True, JNull)"
  by (simp add: engine_defs example_defs data_defs cong: obind_weak_cong)

lemma wrongType_found:
  "getProperty (inherited exampleEnv) (toKey exampleEnv) (SegStr ''foo'') wrongType = Return (True, JNum 42)"
  by (simp add: engine_defs example_defs cong: obind_weak_cong)

theorem nullable_string_field_witness:
  "nullish JNull
   \<and> invoke (makeValidatorChain isStringCheck True) JNull (Plain emptyContext) = Plain emptyContext
   \<and> getProperty (inherited exampleEnv) (toKey exampleEnv) (SegStr ''foo'') nullFoo = Return (True, JNull)
   \<and> propStep (internalCreateInstance 0 exampleEnv) exampleEnv nullFoo (''foo'', fooProperty)
        ([(''foo'', JStr ''def'')], emptyContext)
       = Return ([(''foo'', JNull)], emptyContext)
   \<and> getProperty (inherited exampleEnv) (toKey exampleEnv) (SegStr ''foo'') wrongType = Return (True, JNum 42)
   \<and> propStep (internalCreateInstance 0 exampleEnv) exampleEnv wrongType (''foo'', fooProperty)
        ([(''foo'', JStr ''def'')], emptyContext)
       = Return ([(''foo'', JStr ''def'')], wrongTypeContext)"
proof -
  have a: "invoke (makeValidatorChain isStringCheck True) JNull (Plain emptyContext)
             = Plain emptyContext"
    using nullable_string_field [where v = JNull and fn = isStringCheck
        and ctx = "Plain emptyContext", THEN conjunct1]
    by simp
  have b: "propStep (internalCreateInstance 0 exampleEnv) exampleEnv nullFoo (''foo'', fooProperty)
        ([(''foo'', JStr ''def'')], emptyContext)
       = Return ([(''foo'', JNull)], emptyContext)"
    using nullable_string_field [where v = JNull and m = fooProperty and e = exampleEnv
        and key = "''foo''" and data = nullFoo and c = emptyContext
        and rec = "internalCreateInstance 0 exampleEnv" and result = "[(''foo'', JStr ''def'')]",
        THEN conjunct2]
      fooProperty_shape nullFoo_found
    by simp
  have c: "propStep (internalCreateInstance 0 exampleEnv) exampleEnv wrongType (''foo'', fooProperty)
        ([(''foo'', JStr ''def'')], emptyContext)
       = Return ([(''foo'', JStr ''def'')], wrongTypeContext)"
    using nullable_string_field [where v = "JNum 42" and m = fooProperty and e = exampleEnv
        and key = "''foo''" and data = wrongType and c = emptyContext
        and rec = "internalCreateInstance 0 exampleEnv" and result = "[(''foo'', JStr ''def'')]",
        THEN conjunct2]
      fooProperty_shape wrongType_found
    by (simp add: fooProperty_def makeMappingMetadata_def emptyContext_def wrongTypeContext_def
          pathString_def)
  show ?thesis
    using a b c nullFoo_found wrongType_found by simp
qed

text \<open>
  Claim C6 as stated fails on \<open>{foo: null}\<close>: the property declared with the default
  \<open>"def"\<close> is \<open>null\<close> after the conversion.
\<close>

theorem nullable_default_counterexample:
  "construct TestNullableValidateExample [] = [(''foo'', JStr ''def'')]
   \<and> convert 1 exampleEnv TestNullableValidateExample nullFoo None ()
       = Return (JObj [(''foo'', JNull)], ())"
  by (simp add: engine_defs example_defs data_defs cong: obind_weak_cong)

end
